theory Spec2Isabelle
  imports Main "HOL-Library.AList"
begin

section \<open>JavaScript values\<close>

text \<open>
  The service layer hands the text returned by the remote backend to \<^verbatim>\<open>JSON.parse\<close> and
  passes the resulting value on without a type check, so plans and venues are modelled
  as untyped JavaScript values. An object is an association list from property names to
  values, looked up by key; \<open>JUndefined\<close> is the value of an absent optional field that
  an object literal of the code stores in a property. A number keeps the literal it was
  written with. A string is modelled by the bytes of its UTF-16 code units, each unit
  encoded as in CESU-8 (one byte below 0x80, two below 0x800, three otherwise), so that
  ASCII text is itself.
\<close>

datatype jsval = JUndefined | JNull | JBool bool | JNum string | JStr string
  | JArr "jsval list" | JObj "(string \<times> jsval) list"

datatype error = SyntaxError | TypeError | TransportError

subsection \<open>\<^verbatim>\<open>JSON.parse\<close>\<close>

text \<open>
  \<^verbatim>\<open>JSON.parse\<close> is the platform's function. It is modelled by a lexer and a parser that
  are both state machines run over the input from left to right, so that they are total:
  the lexer turns characters into tokens, the parser keeps a stack of the arrays and
  objects that are still open. A repeated key overwrites the earlier value.
\<close>

datatype token = TLBrace | TRBrace | TLBrack | TRBrack | TColon | TComma
  | TStr string | TNum string | TTrue | TFalse | TNull

datatype nstate = NMinus | NZero | NInt | NDot | NFrac | NExp | NSign | NExpDigits

datatype lmode = LIdle | LStr string | LEsc string | LUni string "nat list"
  | LNum nstate string | LWord string

definition is_digit :: "char \<Rightarrow> bool" where
  "is_digit c = (c \<in> set ''0123456789'')"

definition is_letter :: "char \<Rightarrow> bool" where
  "is_letter c = (c \<in> set ''abcdefghijklmnopqrstuvwxyz'')"

definition is_ws :: "char \<Rightarrow> bool" where
  "is_ws c = (c \<in> {CHR '' '', CHR 0x09, CHR 0x0A, CHR 0x0D})"

definition hex_val :: "char \<Rightarrow> nat option" where
  "hex_val c = map_of
     (zip ''0123456789'' [0, 1, 2, 3, 4, 5, 6, 7, 8, 9] @
      zip ''abcdef'' [10, 11, 12, 13, 14, 15] @
      zip ''ABCDEF'' [10, 11, 12, 13, 14, 15]) c"

definition byte :: "nat \<Rightarrow> char" where
  "byte n =
     Char (odd n) (odd (n div 2)) (odd (n div 4)) (odd (n div 8)) (odd (n div 16))
       (odd (n div 32)) (odd (n div 64)) (odd (n div 128))"

definition unit_bytes :: "nat \<Rightarrow> string" where
  "unit_bytes u =
     (if u < 128 then [byte u]
      else if u < 2048 then [byte (192 + u div 64), byte (128 + u mod 64)]
      else [byte (224 + u div 4096), byte (128 + (u div 64) mod 64),
            byte (128 + u mod 64)])"

definition unescape :: "char \<Rightarrow> char option" where
  "unescape c = map_of
     [(CHR 0x22, CHR 0x22), (CHR 0x5C, CHR 0x5C), (CHR ''/'', CHR ''/''),
      (CHR ''b'', CHR 0x08), (CHR ''f'', CHR 0x0C), (CHR ''n'', CHR 0x0A),
      (CHR ''r'', CHR 0x0D), (CHR ''t'', CHR 0x09)] c"

definition word_token :: "string \<Rightarrow> token option" where
  "word_token w = map_of [(''true'', TTrue), (''false'', TFalse), (''null'', TNull)] w"

fun num_step :: "nstate \<Rightarrow> char \<Rightarrow> nstate option" where
  "num_step NMinus c =
     (if c = CHR ''0'' then Some NZero else if is_digit c then Some NInt else None)"
| "num_step NZero c =
     (if c = CHR ''.'' then Some NDot else if c \<in> set ''eE'' then Some NExp else None)"
| "num_step NInt c =
     (if is_digit c then Some NInt else if c = CHR ''.'' then Some NDot
      else if c \<in> set ''eE'' then Some NExp else None)"
| "num_step NDot c = (if is_digit c then Some NFrac else None)"
| "num_step NFrac c =
     (if is_digit c then Some NFrac else if c \<in> set ''eE'' then Some NExp else None)"
| "num_step NExp c =
     (if c \<in> set ''+-'' then Some NSign else if is_digit c then Some NExpDigits else None)"
| "num_step NSign c = (if is_digit c then Some NExpDigits else None)"
| "num_step NExpDigits c = (if is_digit c then Some NExpDigits else None)"

definition num_final :: "nstate \<Rightarrow> bool" where
  "num_final st = (st \<in> {NZero, NInt, NFrac, NExpDigits})"

definition idle_step :: "char \<Rightarrow> (token list \<times> lmode) option" where
  "idle_step c =
     (if is_ws c then Some ([], LIdle)
      else if c = CHR ''{'' then Some ([TLBrace], LIdle)
      else if c = CHR ''}'' then Some ([TRBrace], LIdle)
      else if c = CHR ''['' then Some ([TLBrack], LIdle)
      else if c = CHR '']'' then Some ([TRBrack], LIdle)
      else if c = CHR '':'' then Some ([TColon], LIdle)
      else if c = CHR '','' then Some ([TComma], LIdle)
      else if c = CHR 0x22 then Some ([], LStr [])
      else if c = CHR ''-'' then Some ([], LNum NMinus [c])
      else if c = CHR ''0'' then Some ([], LNum NZero [c])
      else if is_digit c then Some ([], LNum NInt [c])
      else if is_letter c then Some ([], LWord [c])
      else None)"

definition emit_then :: "token \<Rightarrow> char \<Rightarrow> (token list \<times> lmode) option" where
  "emit_then t c = map_option (\<lambda>(ts, m). (t # ts, m)) (idle_step c)"

fun lex_step :: "lmode \<Rightarrow> char \<Rightarrow> (token list \<times> lmode) option" where
  "lex_step LIdle c = idle_step c"
| "lex_step (LStr acc) c =
     (if c = CHR 0x22 then Some ([TStr (rev acc)], LIdle)
      else if c = CHR 0x5C then Some ([], LEsc acc)
      else if (of_char c :: nat) < 32 then None
      else Some ([], LStr (c # acc)))"
| "lex_step (LEsc acc) c =
     (if c = CHR ''u'' then Some ([], LUni acc [])
      else case unescape c of None \<Rightarrow> None | Some d \<Rightarrow> Some ([], LStr (d # acc)))"
| "lex_step (LUni acc hs) c =
     (case hex_val c of
        None \<Rightarrow> None
      | Some h \<Rightarrow>
          if length hs = 3
          then Some ([], LStr (rev (unit_bytes (foldl (\<lambda>v d. 16 * v + d) 0 (hs @ [h]))) @ acc))
          else Some ([], LUni acc (hs @ [h])))"
| "lex_step (LNum st acc) c =
     (case num_step st c of
        Some st' \<Rightarrow> Some ([], LNum st' (c # acc))
      | None \<Rightarrow> if num_final st then emit_then (TNum (rev acc)) c else None)"
| "lex_step (LWord acc) c =
     (if is_letter c then Some ([], LWord (c # acc))
      else case word_token (rev acc) of None \<Rightarrow> None | Some t \<Rightarrow> emit_then t c)"

fun lex_end :: "lmode \<Rightarrow> token list option" where
  "lex_end LIdle = Some []"
| "lex_end (LNum st acc) = (if num_final st then Some [TNum (rev acc)] else None)"
| "lex_end (LWord acc) = map_option (\<lambda>t. [t]) (word_token (rev acc))"
| "lex_end _ = None"

fun lex_run :: "lmode \<Rightarrow> string \<Rightarrow> token list option" where
  "lex_run m [] = lex_end m"
| "lex_run m (c # cs) =
     (case lex_step m c of
        None \<Rightarrow> None
      | Some (ts, m') \<Rightarrow> map_option ((@) ts) (lex_run m' cs))"

datatype frame = FArr "jsval list" | FObj "(string \<times> jsval) list" string

datatype pstate =
    PVal "frame list"
  | PArr0 "frame list"
  | PArrN "jsval list" "frame list"
  | PObj0 "frame list"
  | PKey "(string \<times> jsval) list" "frame list"
  | PColon "(string \<times> jsval) list" string "frame list"
  | PObjN "(string \<times> jsval) list" "frame list"
  | PDone jsval

fun complete :: "jsval \<Rightarrow> frame list \<Rightarrow> pstate" where
  "complete v [] = PDone v"
| "complete v (FArr elems # st) = PArrN (v # elems) st"
| "complete v (FObj kvs k # st) = PObjN (AList.update k v kvs) st"

fun value_token :: "token \<Rightarrow> frame list \<Rightarrow> pstate option" where
  "value_token TLBrace st = Some (PObj0 st)"
| "value_token TLBrack st = Some (PArr0 st)"
| "value_token (TStr s) st = Some (complete (JStr s) st)"
| "value_token (TNum n) st = Some (complete (JNum n) st)"
| "value_token TTrue st = Some (complete (JBool True) st)"
| "value_token TFalse st = Some (complete (JBool False) st)"
| "value_token TNull st = Some (complete JNull st)"
| "value_token _ st = None"

fun parse_step :: "pstate \<Rightarrow> token \<Rightarrow> pstate option" where
  "parse_step (PVal st) t = value_token t st"
| "parse_step (PArr0 st) t =
     (if t = TRBrack then Some (complete (JArr []) st) else value_token t (FArr [] # st))"
| "parse_step (PArrN elems st) t =
     (if t = TComma then Some (PVal (FArr elems # st))
      else if t = TRBrack then Some (complete (JArr (rev elems)) st)
      else None)"
| "parse_step (PObj0 st) t =
     (case t of TRBrace \<Rightarrow> Some (complete (JObj []) st)
      | TStr k \<Rightarrow> Some (PColon [] k st)
      | _ \<Rightarrow> None)"
| "parse_step (PKey kvs st) t =
     (case t of TStr k \<Rightarrow> Some (PColon kvs k st) | _ \<Rightarrow> None)"
| "parse_step (PColon kvs k st) t =
     (if t = TColon then Some (PVal (FObj kvs k # st)) else None)"
| "parse_step (PObjN kvs st) t =
     (if t = TComma then Some (PKey kvs st)
      else if t = TRBrace then Some (complete (JObj kvs) st)
      else None)"
| "parse_step (PDone v) t = None"

fun parse_run :: "pstate \<Rightarrow> token list \<Rightarrow> jsval option" where
  "parse_run (PDone v) [] = Some v"
| "parse_run _ [] = None"
| "parse_run p (t # ts) =
     (case parse_step p t of None \<Rightarrow> None | Some p' \<Rightarrow> parse_run p' ts)"

definition parse_json :: "string \<Rightarrow> jsval option" where
  "parse_json s =
     (case lex_run LIdle s of None \<Rightarrow> None | Some ts \<Rightarrow> parse_run (PVal []) ts)"

text \<open>A text that is not JSON makes \<^verbatim>\<open>JSON.parse\<close> throw a \<^verbatim>\<open>SyntaxError\<close>.\<close>

definition JSON_parse :: "string \<Rightarrow> error + jsval" where
  "JSON_parse s = (case parse_json s of None \<Rightarrow> Inl SyntaxError | Some v \<Rightarrow> Inr v)"



subsection \<open>Truthiness, property access and object spread\<close>

text \<open>
  An optional string of the backend's response types is \<open>None\<close> when the field is
  \<^verbatim>\<open>undefined\<close>. It is truthy when it is present and not empty; \<^verbatim>\<open>a || b\<close> is \<open>a\<close> when
  \<open>a\<close> is truthy and \<open>b\<close> otherwise.
\<close>

definition truthy :: "string option \<Rightarrow> bool" where
  "truthy a = (case a of None \<Rightarrow> False | Some s \<Rightarrow> s \<noteq> [])"

definition js_or :: "string option \<Rightarrow> string option \<Rightarrow> string option" where
  "js_or a b = (if truthy a then a else b)"

definition or_else :: "string option \<Rightarrow> string \<Rightarrow> string" where
  "or_else a d = (case js_or a (Some d) of None \<Rightarrow> d | Some s \<Rightarrow> s)"

text \<open>A template literal prints an \<^verbatim>\<open>undefined\<close> value as the text \<^verbatim>\<open>undefined\<close>.\<close>

definition interpolate :: "string option \<Rightarrow> string" where
  "interpolate a = (case a of None \<Rightarrow> ''undefined'' | Some s \<Rightarrow> s)"

definition str_val :: "string option \<Rightarrow> jsval" where
  "str_val a = (case a of None \<Rightarrow> JUndefined | Some s \<Rightarrow> JStr s)"

fun digits_of :: "nat \<Rightarrow> string" where
  "digits_of n =
     (if n < 10 then [byte (48 + n)] else digits_of (n div 10) @ [byte (48 + n mod 10)])"

text \<open>The code units of a string: the bytes grouped by the lead byte of each unit.\<close>

fun code_units :: "string \<Rightarrow> string list" where
  "code_units [] = []"
| "code_units (c # cs) =
     (let n = (if (of_char c :: nat) < 128 then 0 else if (of_char c :: nat) < 224 then 1 else 2)
      in (c # take n cs) # code_units (drop n cs))"

text \<open>
  \<^verbatim>\<open>{...v}\<close> copies the own enumerable properties of \<open>v\<close>: those of an object, the
  indexed elements of an array or of a string, and nothing for any other value.
  \<open>property v k\<close> reads the own enumerable property \<open>k\<close> of \<open>v\<close>.
\<close>

definition indexed :: "jsval list \<Rightarrow> (string \<times> jsval) list" where
  "indexed xs = zip (map digits_of [0..<length xs]) xs"

fun spread :: "jsval \<Rightarrow> (string \<times> jsval) list" where
  "spread (JObj kvs) = kvs"
| "spread (JArr xs) = indexed xs"
| "spread (JStr s) = indexed (map JStr (code_units s))"
| "spread _ = []"

definition property :: "jsval \<Rightarrow> string \<Rightarrow> jsval option" where
  "property v k = map_of (spread v) k"

section \<open>The remote generation backend\<close>

text \<open>
  The response types of the backend's client library, as far as the service layer reads
  them. Every field the library declares optional is an \<open>option\<close>. \<open>responseText\<close> is
  the field \<^verbatim>\<open>text\<close> of a response, \<open>isDone\<close> the field \<^verbatim>\<open>done\<close> of an operation,
  \<open>videoUri\<close> the field \<^verbatim>\<open>uri\<close> of a video.
\<close>

record InlineData =
  mimeType :: "string option"
  data :: "string option"

record Part =
  inlineData :: "InlineData option"

record Content =
  parts :: "Part list option"

record Citation =
  uri :: "string option"
  title :: "string option"

record GroundingChunk =
  maps :: "Citation option"
  web :: "Citation option"

record GroundingMetadata =
  groundingChunks :: "GroundingChunk list option"

record Candidate =
  content :: "Content option"
  groundingMetadata :: "GroundingMetadata option"

record Response =
  responseText :: "string option"
  candidates :: "Candidate list option"

record Video =
  videoUri :: "string option"

record GeneratedVideo =
  video :: "Video option"

record GenerateVideosResponse =
  generatedVideos :: "GeneratedVideo list option"

record Operation =
  isDone :: bool
  response :: "GenerateVideosResponse option"

text \<open>
  What the service layer sends. The prompt texts are fixed framing around the values
  below, so a request is identified by those values: the profile (of any type \<open>'p\<close>) and
  the name of the language, the meal name, the image and the edit
  instruction, the location, goal and optional coordinates (of any type \<open>'c\<close>) of a
  venue search, and the stage-one text and citations given to the extraction pass.
\<close>

datatype ('p, 'c) request =
    ImageRequest string
  | EditRequest string string
  | MealPlanRequest 'p string
  | DiscoveryRequest string string string "'c option"
  | ExtractRequest "string option" "GroundingChunk list"
  | WorkoutPlanRequest 'p string

text \<open>
  A call of the backend either is rejected (the awaited promise throws) or answers. The
  backend is a parameter of every service function.
\<close>

type_synonym ('p, 'c) backend = "('p, 'c) request \<Rightarrow> error + Response"

definition constant_backend :: "Response \<Rightarrow> ('p, 'c) backend" where
  "constant_backend r req = Inr r"

definition two_stage_backend :: "Response \<Rightarrow> Response \<Rightarrow> ('p, 'c) backend" where
  "two_stage_backend r1 r2 req = (case req of ExtractRequest t cs \<Rightarrow> Inr r2 | _ \<Rightarrow> Inr r1)"

definition text_response :: "string \<Rightarrow> Response" where
  "text_response s = \<lparr>responseText = Some s, candidates = None\<rparr>"

section \<open>The service layer (\<^verbatim>\<open>services/geminiService.ts\<close>)\<close>

datatype Language = En | Ru | Es

fun getLanguageName :: "Language \<Rightarrow> string" where
  "getLanguageName Ru = ''Russian''"
| "getLanguageName Es = ''Spanish''"
| "getLanguageName _ = ''English''"

subsection \<open>Images\<close>

text \<open>
  \<^verbatim>\<open>response.candidates[0].content.parts\<close> is read without optional chaining: an absent
  list of candidates, an empty one, an absent content or an absent list of parts throws
  a \<^verbatim>\<open>TypeError\<close>.
  The first part that carries inline data gives the locator. \<^verbatim>\<open>editMealImage\<close> splits
  its input locator into media type and payload only to build the request, and neither
  split can throw; the request is identified by the locator and the instruction.
\<close>

definition first_parts :: "Response \<Rightarrow> error + Part list" where
  "first_parts r =
     (case candidates r of
        None \<Rightarrow> Inl TypeError
      | Some [] \<Rightarrow> Inl TypeError
      | Some (c # _) \<Rightarrow>
          (case content c of
             None \<Rightarrow> Inl TypeError
           | Some ct \<Rightarrow> (case parts ct of None \<Rightarrow> Inl TypeError | Some ps \<Rightarrow> Inr ps)))"

definition inline_locator :: "Part list \<Rightarrow> string option" where
  "inline_locator ps =
     (case find (\<lambda>p. inlineData p \<noteq> None) ps of
        None \<Rightarrow> None
      | Some part \<Rightarrow>
          (case inlineData part of
             None \<Rightarrow> None
           | Some d \<Rightarrow> Some (''data:'' @ interpolate (mimeType d) @ '';base64,''
                            @ interpolate (data d))))"

definition generateMealImage :: "('p, 'c) backend \<Rightarrow> string \<Rightarrow> error + string" where
  "generateMealImage generateContent mealName =
     (case generateContent (ImageRequest mealName) of
        Inl e \<Rightarrow> Inl e
      | Inr r \<Rightarrow>
          (case first_parts r of
             Inl e \<Rightarrow> Inl e
           | Inr ps \<Rightarrow> (case inline_locator ps of Some url \<Rightarrow> Inr url | None \<Rightarrow> Inr [])))"

definition editMealImage :: "('p, 'c) backend \<Rightarrow> string \<Rightarrow> string \<Rightarrow> error + string" where
  "editMealImage generateContent base64Image prompt =
     (case generateContent (EditRequest base64Image prompt) of
        Inl e \<Rightarrow> Inl e
      | Inr r \<Rightarrow>
          (case first_parts r of
             Inl e \<Rightarrow> Inl e
           | Inr ps \<Rightarrow>
               (case inline_locator ps of Some url \<Rightarrow> Inr url | None \<Rightarrow> Inr base64Image)))"

subsection \<open>Meal and workout plans\<close>

definition mealPlanFallback :: string where
  \<open>mealPlanFallback =
     ''{"days":[], "prepStrategy": {"batchPrepTasks":[], "storageTips":[], "shoppingList":[]}}''\<close>

definition getMealPlan :: "('p, 'c) backend \<Rightarrow> 'p \<Rightarrow> Language \<Rightarrow> error + jsval" where
  "getMealPlan generateContent profile lang =
     (case generateContent (MealPlanRequest profile (getLanguageName lang)) of
        Inl e \<Rightarrow> Inl e
      | Inr r \<Rightarrow> JSON_parse (or_else (responseText r) mealPlanFallback))"

definition getWorkoutPlan :: "('p, 'c) backend \<Rightarrow> 'p \<Rightarrow> Language \<Rightarrow> error + jsval" where
  "getWorkoutPlan generateContent profile lang =
     (case generateContent (WorkoutPlanRequest profile (getLanguageName lang)) of
        Inl e \<Rightarrow> Inl e
      | Inr r \<Rightarrow> JSON_parse (or_else (responseText r) ''[]''))"

text \<open>The canonical empty results: what the two fallback texts denote.\<close>

definition emptyMealPlan :: jsval where
  "emptyMealPlan =
     JObj [(''days'', JArr []),
           (''prepStrategy'',
            JObj [(''batchPrepTasks'', JArr []), (''storageTips'', JArr []),
                  (''shoppingList'', JArr [])])]"

definition emptyWorkoutPlan :: jsval where
  "emptyWorkoutPlan = JArr []"

text \<open>
  The two parts of a meal plan result: at least one day, and a prep strategy that is
  neither absent nor \<^verbatim>\<open>null\<close>.
\<close>

definition has_days :: "jsval \<Rightarrow> bool" where
  "has_days v = (case property v ''days'' of Some (JArr ds) \<Rightarrow> ds \<noteq> [] | _ \<Rightarrow> False)"

definition has_prepStrategy :: "jsval \<Rightarrow> bool" where
  "has_prepStrategy v =
     (case property v ''prepStrategy'' of
        None \<Rightarrow> False | Some JUndefined \<Rightarrow> False | Some JNull \<Rightarrow> False | Some _ \<Rightarrow> True)"


subsection \<open>Venue recommendations\<close>

text \<open>
  Stage one collects the citations of the first candidate; a citation without a truthy
  map uri or web uri is filtered out, the others become \<^verbatim>\<open>{uri, title}\<close> objects. Stage
  two parses the extraction text inside \<^verbatim>\<open>try\<close>: a text that is not JSON, and a value
  that is not an array (whose \<^verbatim>\<open>map\<close> is not a function), end in the \<^verbatim>\<open>catch\<close>, which
  returns the empty list.
\<close>

definition groundingChunksOf :: "Response \<Rightarrow> GroundingChunk list" where
  "groundingChunksOf r =
     (case candidates r of
        None \<Rightarrow> []
      | Some [] \<Rightarrow> []
      | Some (c # _) \<Rightarrow>
          (case groundingMetadata c of
             None \<Rightarrow> []
           | Some gm \<Rightarrow> (case groundingChunks gm of None \<Rightarrow> [] | Some cs \<Rightarrow> cs)))"

definition maps_uri :: "GroundingChunk \<Rightarrow> string option" where
  "maps_uri chunk = (case maps chunk of None \<Rightarrow> None | Some m \<Rightarrow> uri m)"

definition web_uri :: "GroundingChunk \<Rightarrow> string option" where
  "web_uri chunk = (case web chunk of None \<Rightarrow> None | Some w \<Rightarrow> uri w)"

definition maps_title :: "GroundingChunk \<Rightarrow> string option" where
  "maps_title chunk = (case maps chunk of None \<Rightarrow> None | Some m \<Rightarrow> title m)"

definition web_title :: "GroundingChunk \<Rightarrow> string option" where
  "web_title chunk = (case web chunk of None \<Rightarrow> None | Some w \<Rightarrow> title w)"

definition has_uri :: "GroundingChunk \<Rightarrow> bool" where
  "has_uri chunk = truthy (js_or (maps_uri chunk) (web_uri chunk))"

definition groundingLink :: "GroundingChunk \<Rightarrow> jsval" where
  "groundingLink chunk =
     JObj [(''uri'', str_val (js_or (maps_uri chunk) (web_uri chunk))),
           (''title'', str_val (js_or (js_or (maps_title chunk) (web_title chunk))
                                      (Some ''View Source'')))]"

definition groundingLinks :: "GroundingChunk list \<Rightarrow> jsval list" where
  "groundingLinks chunks = map groundingLink (filter has_uri chunks)"

definition attach :: "jsval list \<Rightarrow> jsval \<Rightarrow> jsval" where
  "attach links gym = JObj (AList.update ''groundingLinks'' (JArr (take 3 links)) (spread gym))"

definition getGymRecommendations ::
  "('p, 'c) backend \<Rightarrow> string \<Rightarrow> string \<Rightarrow> Language \<Rightarrow> 'c option \<Rightarrow> error + jsval list" where
  "getGymRecommendations generateContent location goal lang userCoords =
     (case generateContent (DiscoveryRequest location goal (getLanguageName lang) userCoords) of
        Inl e \<Rightarrow> Inl e
      | Inr r \<Rightarrow>
          (case generateContent (ExtractRequest (responseText r) (groundingChunksOf r)) of
             Inl e \<Rightarrow> Inl e
           | Inr parseResponse \<Rightarrow>
               (case JSON_parse (or_else (responseText parseResponse) ''[]'') of
                  Inl e \<Rightarrow> Inr []
                | Inr (JArr parsedGyms) \<Rightarrow>
                    Inr (map (attach (groundingLinks (groundingChunksOf r))) parsedGyms)
                | Inr _ \<Rightarrow> Inr [])))"

subsection \<open>Exercise videos\<close>

text \<open>
  \<open>generateVideos\<close> submits the job for an exercise name; \<open>getVideosOperation n\<close> is the
  backend's answer to the \<open>n\<close>-th status call. The progress callback is modelled by the
  list of the messages it has received, in order. The polling loop has no bound: a run
  in which the backend never reports completion has no result (\<open>None\<close>).
\<close>

definition progress_at :: "nat \<Rightarrow> string list" where
  "progress_at pollCount =
     (if pollCount = 2 then [''Synthesizing Movement Dynamics...''] else []) @
     (if pollCount = 4 then [''Mapping Muscle Group Activation...''] else []) @
     (if pollCount = 7 then [''Refining Biomechanical Precision...''] else []) @
     (if pollCount = 10 then [''Rendering Atmospheric Lighting...''] else []) @
     (if pollCount = 14 then [''Finalizing Visual Sequence...''] else [])"

partial_function (option) poll_loop ::
  "(nat \<Rightarrow> error + Operation) \<Rightarrow> nat \<Rightarrow> Operation \<Rightarrow> string list
     \<Rightarrow> (string list \<times> (error + Operation)) option" where
  "poll_loop getVideosOperation pollCount operation log =
     (if isDone operation then Some (log, Inr operation)
      else (case getVideosOperation (pollCount + 1) of
              Inl e \<Rightarrow> Some (log @ progress_at (pollCount + 1), Inl e)
            | Inr operation' \<Rightarrow>
                poll_loop getVideosOperation (pollCount + 1) operation'
                  (log @ progress_at (pollCount + 1))))"

definition downloadLink :: "Operation \<Rightarrow> string option" where
  "downloadLink operation =
     (case response operation of
        None \<Rightarrow> None
      | Some r \<Rightarrow>
          (case generatedVideos r of
             None \<Rightarrow> None
           | Some [] \<Rightarrow> None
           | Some (g # _) \<Rightarrow> (case video g of None \<Rightarrow> None | Some v \<Rightarrow> videoUri v)))"

definition getExerciseVideo ::
  "string option \<Rightarrow> (string \<Rightarrow> error + Operation) \<Rightarrow> (nat \<Rightarrow> error + Operation) \<Rightarrow> string
     \<Rightarrow> (string list \<times> (error + string)) option" where
  "getExerciseVideo API_KEY generateVideos getVideosOperation exerciseName =
     (case generateVideos exerciseName of
        Inl e \<Rightarrow> Some ([''Initializing Bio-Visual Simulation...''], Inl e)
      | Inr operation \<Rightarrow>
          (case poll_loop getVideosOperation 0 operation
                  [''Initializing Bio-Visual Simulation...'',
                   ''Accessing Neural Compute Pipeline...''] of
             None \<Rightarrow> None
           | Some (log, Inl e) \<Rightarrow> Some (log, Inl e)
           | Some (log, Inr operation') \<Rightarrow>
               Some (log @ [''Simulation Complete. Finalizing Stream.''],
                     Inr (interpolate (downloadLink operation') @ ''&key='' @ interpolate API_KEY))))"

section \<open>Progress milestones of a video job\<close>

text \<open>
  The eight messages \<^verbatim>\<open>getExerciseVideo\<close> can pass to the progress callback, in the order
  in which the code reaches them; the index of a message is its position in this list.
  \<open>schedule\<close> pairs each message of the polling loop with the poll count that emits it,
  \<open>poll_messages c k\<close> is what \<open>k\<close> iterations emit after poll count \<open>c\<close>,
  \<open>polled g c operation k final\<close> says that \<open>final\<close> is the operation the loop holds
  after \<open>k\<close> iterations started at poll count \<open>c\<close> with \<open>operation\<close>, and
  \<open>status_at\<close> is the operation as the backend reports it: at submission (index 0) and
  at the \<open>i\<close>-th status call.
\<close>

definition milestones :: "string list" where
  "milestones =
     [''Initializing Bio-Visual Simulation...'',
      ''Accessing Neural Compute Pipeline...'',
      ''Synthesizing Movement Dynamics...'',
      ''Mapping Muscle Group Activation...'',
      ''Refining Biomechanical Precision...'',
      ''Rendering Atmospheric Lighting...'',
      ''Finalizing Visual Sequence...'',
      ''Simulation Complete. Finalizing Stream.'']"

definition milestone_index :: "string \<Rightarrow> nat" where
  "milestone_index msg = length (takeWhile (\<lambda>m. m \<noteq> msg) milestones)"

definition schedule :: "(nat \<times> string) list" where
  "schedule =
     [(2, ''Synthesizing Movement Dynamics...''),
      (4, ''Mapping Muscle Group Activation...''),
      (7, ''Refining Biomechanical Precision...''),
      (10, ''Rendering Atmospheric Lighting...''),
      (14, ''Finalizing Visual Sequence...'')]"

definition poll_messages :: "nat \<Rightarrow> nat \<Rightarrow> string list" where
  "poll_messages pollCount k = concat (map progress_at [Suc pollCount ..< Suc pollCount + k])"

definition polled :: "(nat \<Rightarrow> error + Operation) \<Rightarrow> nat \<Rightarrow> Operation \<Rightarrow> nat \<Rightarrow> Operation \<Rightarrow> bool" where
  "polled g c operation k final = (if k = 0 then final = operation else g (c + k) = Inr final)"

definition status_at :: "(string \<Rightarrow> error + Operation) \<Rightarrow> (nat \<Rightarrow> error + Operation) \<Rightarrow> string \<Rightarrow> nat \<Rightarrow> error + Operation" where
  "status_at generateVideos getVideosOperation exerciseName i =
     (if i = 0 then generateVideos exerciseName else getVideosOperation i)"

section \<open>The planner components\<close>

text \<open>
  The two session caches (\<^verbatim>\<open>SESSION_IMAGE_CACHE\<close> in \<^verbatim>\<open>components/MealPlanner.tsx\<close>,
  \<^verbatim>\<open>VIDEO_CACHE\<close> in \<^verbatim>\<open>components/WorkoutPlanner.tsx\<close>) are plain JavaScript objects,
  created empty and used as maps from a meal or exercise name to a locator. The
  association list holds the own properties of such an object. Reading a key yields the
  own property when there is one, and otherwise the property that the object inherits
  from \<^verbatim>\<open>Object.prototype\<close> under that name, if there is one: a function, or the
  prototype itself for \<^verbatim>\<open>__proto__\<close>. An inherited value is not a string and is truthy.
  Assigning a string to a key overwrites the own property or adds one, except for the
  key \<^verbatim>\<open>__proto__\<close> when it is not an own property: that assignment reaches the inherited
  setter, which ignores a string, and nothing is stored.
\<close>

type_synonym cache = "(string \<times> string) list"

datatype cached = Locator string | Inherited string

definition inherited_keys :: "string list" where
  "inherited_keys =
     [''constructor'', ''__defineGetter__'', ''__defineSetter__'', ''hasOwnProperty'',
      ''__lookupGetter__'', ''__lookupSetter__'', ''isPrototypeOf'', ''propertyIsEnumerable'',
      ''toString'', ''valueOf'', ''__proto__'', ''toLocaleString'']"

definition cache_get :: "cache \<Rightarrow> string \<Rightarrow> cached option" where
  "cache_get c k =
     (case map_of c k of
        Some v \<Rightarrow> Some (Locator v)
      | None \<Rightarrow> if k \<in> set inherited_keys then Some (Inherited k) else None)"

definition cache_set :: "string \<Rightarrow> string \<Rightarrow> cache \<Rightarrow> cache" where
  "cache_set k v c = (if k = ''__proto__'' \<and> map_of c k = None then c else AList.update k v c)"

definition truthy_cached :: "cached option \<Rightarrow> bool" where
  "truthy_cached a =
     (case a of None \<Rightarrow> False | Some (Locator s) \<Rightarrow> s \<noteq> [] | Some (Inherited k) \<Rightarrow> True)"

definition cached_or :: "cached option \<Rightarrow> cached option \<Rightarrow> cached option" where
  "cached_or a b = (if truthy_cached a then a else b)"

text \<open>
  \<^verbatim>\<open>String.prototype.trim\<close> removes the white space and line terminators of ECMAScript
  at both ends; \<open>space_units\<close> lists their code units.
\<close>

definition space_units :: "string list" where
  "space_units =
     map unit_bytes
       [9, 10, 11, 12, 13, 32, 160, 5760, 8192, 8193, 8194, 8195, 8196, 8197, 8198, 8199, 8200,
        8201, 8202, 8232, 8233, 8239, 8287, 12288, 65279]"

definition js_trim :: "string \<Rightarrow> string" where
  "js_trim s =
     concat (rev (dropWhile (\<lambda>u. u \<in> set space_units)
                    (rev (dropWhile (\<lambda>u. u \<in> set space_units) (code_units s)))))"

text \<open>
  Of a meal and of a day, the fields the image code reads or writes; the object spread
  copies the others unchanged. A meal slot may be empty, and \<open>snacks\<close> is \<open>None\<close> when
  it is not an array.
\<close>

record Meal =
  name :: string
  imageUrl :: "string option"

record DailyMealPlan =
  day :: string
  breakfast :: "Meal option"
  lunch :: "Meal option"
  dinner :: "Meal option"
  snacks :: "Meal option list option"

definition day_slots :: "DailyMealPlan \<Rightarrow> Meal option list" where
  "day_slots d =
     [breakfast d, lunch d, dinner d] @ (case snacks d of Some ms \<Rightarrow> ms | None \<Rightarrow> [])"

text \<open>
  The state of one \<^verbatim>\<open>MealImage\<close> component and the state of the planner that the image
  code touches. \<open>imageUrlState\<close> is the component's \<^verbatim>\<open>imageUrl\<close>, which holds whatever
  the cache yielded when the component was mounted; \<open>existingUrlProp\<close> is the
  \<^verbatim>\<open>existingUrl\<close> the component was last rendered with. Every run of the fetch effect
  that makes a generation call has a flag \<^verbatim>\<open>isMounted\<close> of its own, set until the
  cleanup of that run. React runs the cleanup of the previous run before it runs an
  effect again, so at most one run of a component has its flag set:
  \<open>currentRun st = Some n\<close> says that it is the run that made the call numbered \<open>n\<close>.
\<close>

record MealImageState =
  imageUrlState :: "cached option"
  loading :: bool
  isVisible :: bool
  existingUrlProp :: "string option"
  currentRun :: "nat option"

record MealPlannerState =
  SESSION_IMAGE_CACHE :: cache
  plans :: "DailyMealPlan list"
  selectedMeal :: "Meal option"
  editPrompt :: string
  isEditingImage :: bool

definition plan_slots :: "MealPlannerState \<Rightarrow> Meal option list" where
  "plan_slots s = concat (map day_slots (plans s))"

text \<open>
  An \<^verbatim>\<open>async\<close> function is modelled by its two halves: what it does up to its
  \<^verbatim>\<open>await\<close>, whose result says whether the function has returned or is awaiting the
  generation call it has just made, and what it does once that call has settled. The
  natural number paired with a state counts the generation calls made so far, and the
  call made when the count is \<open>n\<close> is the call numbered \<open>n\<close>; the outcome of a call is
  given by a parameter.
\<close>

datatype 's suspended = Returned 's | Awaiting 's

text \<open>
  \<^verbatim>\<open>MealImage\<close> starts from \<^verbatim>\<open>existingUrl || SESSION_IMAGE_CACHE[mealName] || null\<close>
  (\<open>MealImage_initial\<close>). Its first effect copies a truthy \<^verbatim>\<open>existingUrl\<close> into the
  state (\<open>sync_existingUrl\<close>); it runs at mount and whenever \<^verbatim>\<open>existingUrl\<close> has changed.
  The intersection observer marks the component visible unless it has an image
  (\<open>intersecting\<close>). The fetch effect (\<open>fetch_effect\<close>) calls \<^verbatim>\<open>generateMealImage\<close> when
  the component is visible and has no truthy image, under a new flag; its cleanup
  (\<open>cleanup\<close>) clears the flag. \<open>MealImage_begin\<close> is a component that is mounted and then
  scrolled into view.
\<close>

definition MealImage_initial :: "cache \<Rightarrow> string \<Rightarrow> string option \<Rightarrow> MealImageState" where
  "MealImage_initial cache mealName existingUrl =
     \<lparr>imageUrlState =
        cached_or (map_option Locator existingUrl) (cached_or (cache_get cache mealName) None),
      loading = (\<not> truthy existingUrl \<and> \<not> truthy_cached (cache_get cache mealName)),
      isVisible = False, existingUrlProp = existingUrl, currentRun = None\<rparr>"

definition sync_existingUrl :: "string option \<Rightarrow> MealImageState \<Rightarrow> MealImageState" where
  "sync_existingUrl existingUrl st =
     (if truthy existingUrl
      then st\<lparr>imageUrlState := map_option Locator existingUrl, loading := False\<rparr>
      else st)"

definition intersecting :: "MealImageState \<Rightarrow> MealImageState" where
  "intersecting st = (if truthy_cached (imageUrlState st) then st else st\<lparr>isVisible := True\<rparr>)"

definition fetch_due :: "MealImageState \<Rightarrow> bool" where
  "fetch_due st = (\<not> (\<not> isVisible st \<or> truthy_cached (imageUrlState st)))"

definition fetch_effect :: "MealImageState \<Rightarrow> nat \<Rightarrow> MealImageState \<times> nat" where
  "fetch_effect st n = (if fetch_due st then (st\<lparr>currentRun := Some n\<rparr>, Suc n) else (st, n))"

definition cleanup :: "MealImageState \<Rightarrow> MealImageState" where
  "cleanup st = st\<lparr>currentRun := None\<rparr>"

definition MealImage_begin ::
  "MealPlannerState \<times> nat \<Rightarrow> string \<Rightarrow> string option
     \<Rightarrow> (MealPlannerState \<times> nat) \<times> MealImageState suspended" where
  "MealImage_begin sn mealName existingUrl =
     (let st = intersecting (sync_existingUrl existingUrl
                 (MealImage_initial (SESSION_IMAGE_CACHE (fst sn)) mealName existingUrl))
      in if fetch_due st
         then ((fst sn, snd (fetch_effect st (snd sn))), Awaiting (fst (fetch_effect st (snd sn))))
         else (sn, Returned st))"

text \<open>
  The planner passes \<^verbatim>\<open>onImageLoaded\<close> as an arrow function written in its render, a new
  function at every render, and \<^verbatim>\<open>onImageLoaded\<close> is a dependency of the fetch effect. So
  whenever the planner renders, every \<^verbatim>\<open>MealImage\<close> on the page is rendered again, the
  cleanup of its fetch effect clears the flag of the run before, and the effect runs
  again with the \<^verbatim>\<open>imageUrl\<close> of that render. The first effect sets the state only for
  the render after: when it changes \<^verbatim>\<open>imageUrl\<close>, the component is rendered once more and
  the fetch effect is cleaned up and run again. \<open>MealImage_rerender\<close> is what a render
  of the planner does to a mounted component, given the \<^verbatim>\<open>existingUrl\<close> it passes.
\<close>

definition MealImage_rerender ::
  "string option \<Rightarrow> MealImageState \<times> nat \<Rightarrow> MealImageState \<times> nat" where
  "MealImage_rerender existingUrl stn =
     (let st = fst stn;
          synced = (if existingUrl = existingUrlProp st then st else sync_existingUrl existingUrl st);
          ran = fetch_effect (cleanup (st\<lparr>existingUrlProp := existingUrl\<rparr>)) (snd stn);
          st' = (fst ran)\<lparr>imageUrlState := imageUrlState synced, loading := loading synced\<rparr>
      in if imageUrlState st' = imageUrlState st then (st', snd ran)
         else fetch_effect (cleanup st') (snd ran))"

definition update_meal :: "string \<Rightarrow> string \<Rightarrow> Meal option \<Rightarrow> Meal option" where
  "update_meal mealName url m =
     (case m of
        None \<Rightarrow> None
      | Some meal \<Rightarrow> if name meal = mealName then Some (meal\<lparr>imageUrl := Some url\<rparr>) else m)"

definition update_day :: "string \<Rightarrow> string \<Rightarrow> DailyMealPlan \<Rightarrow> DailyMealPlan" where
  "update_day mealName url d =
     d\<lparr>breakfast := update_meal mealName url (breakfast d),
       lunch := update_meal mealName url (lunch d),
       dinner := update_meal mealName url (dinner d),
       snacks := (case snacks d of
                   Some ms \<Rightarrow> Some (map (update_meal mealName url) ms)
                 | None \<Rightarrow> Some [])\<rparr>"

definition updateMealImageInState :: "MealPlannerState \<Rightarrow> string \<Rightarrow> string \<Rightarrow> MealPlannerState" where
  "updateMealImageInState s mealName url =
     s\<lparr>SESSION_IMAGE_CACHE := cache_set mealName url (SESSION_IMAGE_CACHE s),
       plans := map (update_day mealName url) (plans s)\<rparr>"

text \<open>
  When the call numbered \<open>call\<close> settles, its outcome is applied only if the flag of the
  run that made it is still set: then \<open>fetchImage_settled\<close> stores the locator in the
  cache and in the component and hands it to \<^verbatim>\<open>onImageLoaded\<close>, which is
  \<^verbatim>\<open>updateMealImageInState\<close> for the meal's name and sets the plans, so that the planner
  renders again. React applies the state set while an outcome is handled in one render,
  the one that follows.
\<close>

definition fetchImage_settled ::
  "MealPlannerState \<Rightarrow> string \<Rightarrow> MealImageState \<Rightarrow> nat \<Rightarrow> error + string
     \<Rightarrow> MealPlannerState \<times> MealImageState" where
  "fetchImage_settled s mealName st call outcome =
     (if currentRun st \<noteq> Some call then (s, st)
      else case outcome of
             Inl e \<Rightarrow> (s, st\<lparr>loading := False\<rparr>)
           | Inr url \<Rightarrow>
               (updateMealImageInState
                  (s\<lparr>SESSION_IMAGE_CACHE := cache_set mealName url (SESSION_IMAGE_CACHE s)\<rparr>)
                  mealName url,
                st\<lparr>imageUrlState := Some (Locator url), loading := False\<rparr>))"

text \<open>
  \<^verbatim>\<open>handleEditImage\<close> returns at once unless the selected meal has a truthy image and the
  prompt is not blank; an edit that throws leaves the cache and the plans as they were.
\<close>

definition handleEditImage ::
  "('p, 'c) backend \<Rightarrow> MealPlannerState \<Rightarrow> string option \<Rightarrow> MealPlannerState" where
  "handleEditImage generateContent s promptOverride =
     (let promptToUse = or_else promptOverride (editPrompt s)
      in case selectedMeal s of
           None \<Rightarrow> s
         | Some meal \<Rightarrow>
             (case imageUrl meal of
                None \<Rightarrow> s
              | Some base64Image \<Rightarrow>
                  if base64Image = [] \<or> js_trim promptToUse = [] then s
                  else (case editMealImage generateContent base64Image promptToUse of
                          Inl e \<Rightarrow> s\<lparr>isEditingImage := False\<rparr>
                        | Inr newUrl \<Rightarrow>
                            (let s1 = updateMealImageInState (s\<lparr>isEditingImage := True\<rparr>)
                                        (name meal) newUrl;
                                 s2 = s1\<lparr>selectedMeal :=
                                           map_option (\<lambda>prev. prev\<lparr>imageUrl := Some newUrl\<rparr>)
                                             (selectedMeal s1)\<rparr>;
                                 s3 = (if \<not> truthy promptOverride then s2\<lparr>editPrompt := []\<rparr>
                                       else s2)
                             in s3\<lparr>isEditingImage := False\<rparr>))))"

text \<open>
  \<^verbatim>\<open>handleOpenDemo\<close> of the workout planner; \<open>getVideo n\<close> is the outcome of the call
  numbered \<open>n\<close> of \<^verbatim>\<open>getExerciseVideo\<close>: the progress messages and the result.
  \<open>currentVideoUrl\<close> holds whatever the cache yielded.
\<close>

record WorkoutPlannerState =
  VIDEO_CACHE :: cache
  activeExercise :: "string option"
  isDemoVisible :: bool
  videoLoading :: bool
  videoProgressMsg :: string
  currentVideoUrl :: "cached option"

definition handleOpenDemo_begin ::
  "WorkoutPlannerState \<times> nat \<Rightarrow> string \<Rightarrow> (WorkoutPlannerState \<times> nat) suspended" where
  "handleOpenDemo_begin sn exerciseName =
     (let s = (fst sn)\<lparr>activeExercise := Some exerciseName, isDemoVisible := True\<rparr>
      in if truthy_cached (cache_get (VIDEO_CACHE s) exerciseName)
         then Returned (s\<lparr>currentVideoUrl := cache_get (VIDEO_CACHE s) exerciseName,
                          videoLoading := False\<rparr>, snd sn)
         else Awaiting (s\<lparr>videoLoading := True,
                          videoProgressMsg := ''Initializing Simulation Lab...''\<rparr>, Suc (snd sn)))"

definition handleOpenDemo_settled ::
  "WorkoutPlannerState \<Rightarrow> string \<Rightarrow> string list \<times> (error + string) \<Rightarrow> WorkoutPlannerState" where
  "handleOpenDemo_settled s exerciseName outcome =
     (let s1 = s\<lparr>videoProgressMsg := last (videoProgressMsg s # fst outcome)\<rparr>
      in case snd outcome of
           Inr url \<Rightarrow>
             s1\<lparr>VIDEO_CACHE := cache_set exerciseName url (VIDEO_CACHE s1),
                currentVideoUrl := Some (Locator url), videoLoading := False\<rparr>
         | Inl e \<Rightarrow>
             s1\<lparr>videoProgressMsg := ''Network Protocol Error. Please Retry.'',
                videoLoading := False\<rparr>)"

definition handleOpenDemo ::
  "(nat \<Rightarrow> string \<Rightarrow> string list \<times> (error + string)) \<Rightarrow> WorkoutPlannerState \<times> nat \<Rightarrow> string
     \<Rightarrow> WorkoutPlannerState \<times> nat" where
  "handleOpenDemo getVideo sn exerciseName =
     (case handleOpenDemo_begin sn exerciseName of
        Returned sn' \<Rightarrow> sn'
      | Awaiting (s, n) \<Rightarrow> (handleOpenDemo_settled s exerciseName (getVideo (snd sn) exerciseName), n))"

section \<open>Vocabulary of the properties\<close>

text \<open>
  A citation misses both uris when neither its map part nor its web part carries one. A
  venue has coordinates when its \<^verbatim>\<open>lat\<close> and \<^verbatim>\<open>lng\<close> are both numbers.
\<close>

definition missing_both :: "GroundingChunk \<Rightarrow> bool" where
  "missing_both chunk = (maps_uri chunk = None \<and> web_uri chunk = None)"

definition has_coordinates :: "jsval \<Rightarrow> bool" where
  "has_coordinates venue =
     ((case property venue ''lat'' of Some (JNum n) \<Rightarrow> True | _ \<Rightarrow> False) \<and>
      (case property venue ''lng'' of Some (JNum n) \<Rightarrow> True | _ \<Rightarrow> False))"

section \<open>Example inputs\<close>

text \<open>
  Concrete backend answers on which the functions are evaluated: a response without
  candidates and without text, a response whose only candidate has no content (as when
  the generation was blocked), a meal plan text that has days and no prep strategy, a
  venue search with five citations and two extracted venues, and a video job that is
  reported done at the third status call.
\<close>

definition no_candidates :: Response where
  "no_candidates = \<lparr>responseText = None, candidates = None\<rparr>"

definition blocked_response :: Response where
  "blocked_response =
     \<lparr>responseText = None, candidates = Some [\<lparr>content = None, groundingMetadata = None\<rparr>]\<rparr>"

definition no_text :: Response where
  "no_text = \<lparr>responseText = None, candidates = None\<rparr>"

definition partial_plan_text :: string where
  \<open>partial_plan_text = ''{"days":[{"day":"Monday"}]}''\<close>

definition partial_plan :: jsval where
  "partial_plan = JObj [(''days'', JArr [JObj [(''day'', JStr ''Monday'')]])]"

definition example_chunks :: "GroundingChunk list" where
  "example_chunks =
     [\<lparr>maps = Some \<lparr>uri = Some ''https://maps.example/iron'', title = Some ''Iron Temple''\<rparr>,
       web = None\<rparr>,
      \<lparr>maps = None, web = None\<rparr>,
      \<lparr>maps = None, web = Some \<lparr>uri = Some ''https://example.com/a'', title = None\<rparr>\<rparr>,
      \<lparr>maps = Some \<lparr>uri = Some [], title = Some ''Untitled''\<rparr>,
       web = Some \<lparr>uri = Some ''https://example.com/b'', title = Some ''Pulse Lab''\<rparr>\<rparr>,
      \<lparr>maps = None, web = Some \<lparr>uri = Some ''https://example.com/c'', title = Some ''C''\<rparr>\<rparr>]"

definition discovery_response :: Response where
  "discovery_response =
     \<lparr>responseText = Some ''Two gyms found.'',
      candidates = Some [\<lparr>content = None,
                          groundingMetadata = Some \<lparr>groundingChunks = Some example_chunks\<rparr>\<rparr>]\<rparr>"

definition extraction_text :: string where
  \<open>extraction_text =
     ''[{"name":"Iron Temple","lat":30.27,"lng":-97.74},{"name":"Pulse Lab","lat":null}]''\<close>

definition example_backend :: "(unit, unit) backend" where
  "example_backend = two_stage_backend discovery_response (text_response extraction_text)"

definition example_links :: "jsval list" where
  "example_links =
     [JObj [(''uri'', JStr ''https://maps.example/iron''), (''title'', JStr ''Iron Temple'')],
      JObj [(''uri'', JStr ''https://example.com/a''), (''title'', JStr ''View Source'')],
      JObj [(''uri'', JStr ''https://example.com/b''), (''title'', JStr ''Untitled'')]]"

definition example_gyms :: "jsval list" where
  "example_gyms =
     [JObj [(''name'', JStr ''Iron Temple''), (''lat'', JNum ''30.27''), (''lng'', JNum ''-97.74'')],
      JObj [(''name'', JStr ''Pulse Lab''), (''lat'', JNull)]]"

definition example_venues :: "jsval list" where
  "example_venues =
     [JObj [(''name'', JStr ''Iron Temple''), (''lat'', JNum ''30.27''), (''lng'', JNum ''-97.74''),
            (''groundingLinks'', JArr example_links)],
      JObj [(''name'', JStr ''Pulse Lab''), (''lat'', JNull),
            (''groundingLinks'', JArr example_links)]]"

definition pending_operation :: Operation where
  "pending_operation = \<lparr>isDone = False, response = None\<rparr>"

definition finished_operation :: "string option \<Rightarrow> Operation" where
  "finished_operation link =
     \<lparr>isDone = True,
      response = Some \<lparr>generatedVideos = Some [\<lparr>video = Some \<lparr>videoUri = link\<rparr>\<rparr>]\<rparr>\<rparr>"

definition submit_pending :: "string \<Rightarrow> error + Operation" where
  "submit_pending exerciseName = Inr pending_operation"

definition done_at :: "nat \<Rightarrow> Operation \<Rightarrow> nat \<Rightarrow> error + Operation" where
  "done_at n final i = Inr (if n \<le> i then final else pending_operation)"

definition example_log :: "string list" where
  "example_log =
     [''Initializing Bio-Visual Simulation...'',
      ''Accessing Neural Compute Pipeline...'',
      ''Synthesizing Movement Dynamics...'',
      ''Simulation Complete. Finalizing Stream.'']"

text \<open>
  A day in which lunch and a snack are the same meal, a planner with an empty cache,
  a component that awaits the call it has made and one that shows a locator, a backend
  whose image response has no inline payload and one whose response has one, a planner
  in which the image of the selected meal is about to be edited, and a planner whose
  selected meal has the name of the inherited property \<^verbatim>\<open>__proto__\<close>.
\<close>

definition salmon :: Meal where
  "salmon = \<lparr>name = ''Grilled Salmon'', imageUrl = None\<rparr>"

definition example_day :: DailyMealPlan where
  "example_day =
     \<lparr>day = ''Monday'', breakfast = Some \<lparr>name = ''Oatmeal'', imageUrl = None\<rparr>,
      lunch = Some salmon, dinner = None, snacks = Some [Some salmon]\<rparr>"

definition fresh_planner :: MealPlannerState where
  "fresh_planner =
     \<lparr>SESSION_IMAGE_CACHE = [], plans = [example_day], selectedMeal = None, editPrompt = [],
      isEditingImage = False\<rparr>"

definition waiting_image :: "nat \<Rightarrow> MealImageState" where
  "waiting_image call =
     \<lparr>imageUrlState = None, loading = True, isVisible = True, existingUrlProp = None,
      currentRun = Some call\<rparr>"

definition shown_image :: "string \<Rightarrow> MealImageState" where
  "shown_image url =
     \<lparr>imageUrlState = Some (Locator url), loading = False, isVisible = True,
      existingUrlProp = Some url, currentRun = None\<rparr>"

definition parts_response :: "Part list \<Rightarrow> Response" where
  "parts_response ps =
     \<lparr>responseText = None,
      candidates = Some [\<lparr>content = Some \<lparr>parts = Some ps\<rparr>, groundingMetadata = None\<rparr>]\<rparr>"

definition text_part :: Part where
  "text_part = \<lparr>inlineData = None\<rparr>"

definition png_part :: "string \<Rightarrow> Part" where
  "png_part payload = \<lparr>inlineData = Some \<lparr>mimeType = Some ''image/png'', data = Some payload\<rparr>\<rparr>"

definition no_image_backend :: "(unit, unit) backend" where
  "no_image_backend = constant_backend (parts_response [text_part])"

definition image_backend :: "(unit, unit) backend" where
  "image_backend = constant_backend (parts_response [text_part, png_part ''AAAA''])"

definition salmon_stored :: MealPlannerState where
  "salmon_stored =
     \<lparr>SESSION_IMAGE_CACHE = [(''Grilled Salmon'', ''data:image/png;base64,AAAA'')],
      plans =
        [\<lparr>day = ''Monday'', breakfast = Some \<lparr>name = ''Oatmeal'', imageUrl = None\<rparr>,
          lunch = Some \<lparr>name = ''Grilled Salmon'', imageUrl = Some ''data:image/png;base64,AAAA''\<rparr>,
          dinner = None,
          snacks = Some [Some \<lparr>name = ''Grilled Salmon'',
                                imageUrl = Some ''data:image/png;base64,AAAA''\<rparr>]\<rparr>],
      selectedMeal = None, editPrompt = [], isEditingImage = False\<rparr>"

definition empty_stored :: MealPlannerState where
  "empty_stored =
     \<lparr>SESSION_IMAGE_CACHE = [(''Grilled Salmon'', [])],
      plans =
        [\<lparr>day = ''Monday'', breakfast = Some \<lparr>name = ''Oatmeal'', imageUrl = None\<rparr>,
          lunch = Some \<lparr>name = ''Grilled Salmon'', imageUrl = Some []\<rparr>,
          dinner = None,
          snacks = Some [Some \<lparr>name = ''Grilled Salmon'', imageUrl = Some []\<rparr>]\<rparr>],
      selectedMeal = None, editPrompt = [], isEditingImage = False\<rparr>"

definition fresh_workout :: WorkoutPlannerState where
  "fresh_workout =
     \<lparr>VIDEO_CACHE = [], activeExercise = None, isDemoVisible = False, videoLoading = False,
      videoProgressMsg = [], currentVideoUrl = None\<rparr>"

definition video_ready :: "nat \<Rightarrow> string \<Rightarrow> string list \<times> (error + string)" where
  "video_ready n exerciseName = (example_log, Inr ''https://v/1&key=K'')"

definition video_fails :: "nat \<Rightarrow> string \<Rightarrow> string list \<times> (error + string)" where
  "video_fails n exerciseName = ([''Initializing Bio-Visual Simulation...''], Inl TransportError)"

definition demo_first :: "WorkoutPlannerState \<times> nat" where
  "demo_first = handleOpenDemo video_ready (fresh_workout, 0) ''Squat''"

definition demo_second :: "WorkoutPlannerState \<times> nat" where
  "demo_second = handleOpenDemo video_ready demo_first ''Squat''"

definition editing_planner :: MealPlannerState where
  "editing_planner =
     \<lparr>SESSION_IMAGE_CACHE = [(''Oatmeal'', ''data:image/png;base64,CCCC''),
                              (''Grilled Salmon'', ''data:image/png;base64,AAAA'')],
      plans = [example_day\<lparr>lunch := Some (salmon\<lparr>imageUrl := Some ''data:image/png;base64,AAAA''\<rparr>)\<rparr>],
      selectedMeal = Some (salmon\<lparr>imageUrl := Some ''data:image/png;base64,AAAA''\<rparr>),
      editPrompt = [], isEditingImage = False\<rparr>"

definition edit_backend :: "(unit, unit) backend" where
  "edit_backend = constant_backend (parts_response [png_part ''BBBB''])"

definition edited_planner :: MealPlannerState where
  "edited_planner = handleEditImage edit_backend editing_planner (Some ''Add a lemon wedge'')"

definition proto_meal :: Meal where
  "proto_meal = \<lparr>name = ''__proto__'', imageUrl = Some ''data:image/png;base64,AAAA''\<rparr>"

definition proto_planner :: MealPlannerState where
  "proto_planner =
     \<lparr>SESSION_IMAGE_CACHE = [],
      plans = [\<lparr>day = ''Monday'', breakfast = None, lunch = Some proto_meal, dinner = None,
                snacks = Some []\<rparr>],
      selectedMeal = Some proto_meal, editPrompt = [], isEditingImage = False\<rparr>"

definition proto_edited :: MealPlannerState where
  "proto_edited = handleEditImage edit_backend proto_planner (Some ''Add a lemon wedge'')"

section \<open>Properties of the service layer\<close>

subsection \<open>Parsing and fallbacks\<close>

lemma parse_mealPlanFallback: "parse_json mealPlanFallback = Some emptyMealPlan"
  unfolding mealPlanFallback_def emptyMealPlan_def by code_simp

lemma parse_workoutFallback: "parse_json ''[]'' = Some emptyWorkoutPlan"
  unfolding emptyWorkoutPlan_def by code_simp

lemma parse_not_json: "parse_json ''not json'' = None"
  by code_simp

lemma parse_partial_plan: "parse_json partial_plan_text = Some partial_plan"
  unfolding partial_plan_text_def partial_plan_def by code_simp

lemma parse_extraction_text: "parse_json extraction_text = Some (JArr example_gyms)"
  unfolding extraction_text_def example_gyms_def by code_simp

lemma or_else_simps:
  "or_else None d = d" "or_else (Some []) d = d" "s \<noteq> [] \<Longrightarrow> or_else (Some s) d = s"
  by (simp_all add: or_else_def js_or_def truthy_def)

text \<open>
  A text that is not empty and does not parse makes both plan functions throw.
\<close>

lemma unparseable_text_raises:
  assumes "responseText r = Some s" and "s \<noteq> []" and "parse_json s = None"
  shows "generateContent (MealPlanRequest profile (getLanguageName lang)) = Inr r \<Longrightarrow>
           getMealPlan generateContent profile lang = Inl SyntaxError"
    and "generateContent (WorkoutPlanRequest profile (getLanguageName lang)) = Inr r \<Longrightarrow>
           getWorkoutPlan generateContent profile lang = Inl SyntaxError"
  using assms
  by (simp_all add: getMealPlan_def getWorkoutPlan_def or_else_simps JSON_parse_def)

text \<open>
  C1. The claim: when the backend's text is not empty and is not JSON, \<^verbatim>\<open>getMealPlan\<close> and
  \<^verbatim>\<open>getWorkoutPlan\<close> return the canonical empty result and no exception escapes. The code
  calls \<^verbatim>\<open>JSON.parse\<close> outside any \<^verbatim>\<open>try\<close>: on the text \<^verbatim>\<open>not json\<close>, for every
  profile and language, both functions throw a \<^verbatim>\<open>SyntaxError\<close>.
\<close>

theorem plans_not_json_raise:
  "getMealPlan (constant_backend (text_response ''not json'')) profile lang = Inl SyntaxError \<and>
   getWorkoutPlan (constant_backend (text_response ''not json'')) profile lang = Inl SyntaxError"
  by (simp add: getMealPlan_def getWorkoutPlan_def constant_backend_def text_response_def
      or_else_simps JSON_parse_def parse_not_json)

text \<open>
  C3, as the code has it. When the backend answers, \<^verbatim>\<open>getMealPlan\<close> returns the canonical
  empty result if the response carries no text (absent or empty), and otherwise, if the
  text parses, the parsed value itself, whatever parts it has.
\<close>

theorem getMealPlan_returns_parsed:
  assumes "generateContent (MealPlanRequest profile (getLanguageName lang)) = Inr r"
  shows "(\<not> truthy (responseText r) \<longrightarrow> getMealPlan generateContent profile lang = Inr emptyMealPlan) \<and>
         (\<forall>s v. responseText r = Some s \<and> s \<noteq> [] \<and> parse_json s = Some v \<longrightarrow>
            getMealPlan generateContent profile lang = Inr v)"
  using assms
  by (auto simp: getMealPlan_def or_else_simps JSON_parse_def parse_mealPlanFallback truthy_def
      split: option.splits)

theorem getMealPlan_returns_parsed_witness:
  "constant_backend no_text (MealPlanRequest () (getLanguageName En)) = Inr no_text \<and>
   \<not> truthy (responseText no_text) \<and>
   getMealPlan (constant_backend no_text) () En = Inr emptyMealPlan \<and>
   constant_backend (text_response partial_plan_text) (MealPlanRequest () (getLanguageName Ru)) =
     Inr (text_response partial_plan_text) \<and>
   responseText (text_response partial_plan_text) = Some partial_plan_text \<and>
   partial_plan_text \<noteq> [] \<and> parse_json partial_plan_text = Some partial_plan \<and>
   getMealPlan (constant_backend (text_response partial_plan_text)) () Ru = Inr partial_plan"
proof -
  have a: "constant_backend no_text (MealPlanRequest () (getLanguageName En)) = Inr no_text"
    and b: "constant_backend (text_response partial_plan_text)
              (MealPlanRequest () (getLanguageName Ru)) = Inr (text_response partial_plan_text)"
    by (simp_all add: constant_backend_def)
  have c: "\<not> truthy (responseText no_text)"
    by (simp add: no_text_def truthy_def)
  have d: "responseText (text_response partial_plan_text) = Some partial_plan_text"
    "partial_plan_text \<noteq> []"
    by (simp_all add: text_response_def partial_plan_text_def)
  have e: "getMealPlan (constant_backend no_text) () En = Inr emptyMealPlan"
    using getMealPlan_returns_parsed [of "constant_backend no_text" "()" En no_text, OF a] c
    by blast
  have f: "getMealPlan (constant_backend (text_response partial_plan_text)) () Ru = Inr partial_plan"
    using getMealPlan_returns_parsed [of "constant_backend (text_response partial_plan_text)" "()" Ru
      "text_response partial_plan_text", OF b] d parse_partial_plan
    by blast
  from a b c d e f parse_partial_plan show ?thesis by (intro conjI)
qed

text \<open>
  C3 as stated fails: on a text with one day and no prep strategy the result has days,
  has no prep strategy and is not the canonical empty result.
\<close>

theorem getMealPlan_partial_counterexample:
  "getMealPlan (constant_backend (text_response partial_plan_text)) () En = Inr partial_plan \<and>
   has_days partial_plan \<and> \<not> has_prepStrategy partial_plan \<and> partial_plan \<noteq> emptyMealPlan"
  by (simp add: getMealPlan_def constant_backend_def text_response_def or_else_def js_or_def truthy_def
       JSON_parse_def parse_partial_plan) (simp add: partial_plan_def partial_plan_text_def has_days_def has_prepStrategy_def
      property_def emptyMealPlan_def)

subsection \<open>Images\<close>

lemma inline_locator_None: "(\<forall>p \<in> set ps. inlineData p = None) \<Longrightarrow> inline_locator ps = None"
proof -
  assume "\<forall>p \<in> set ps. inlineData p = None"
  then have "find (\<lambda>p. inlineData p \<noteq> None) ps = None"
    by (induction ps) simp_all
  then show ?thesis by (simp add: inline_locator_def)
qed

lemma inline_locator_nonempty: "inline_locator ps = Some url \<Longrightarrow> url \<noteq> []"
  by (auto simp: inline_locator_def split: option.splits)

text \<open>
  When the first candidate of the response has parts and none of them carries inline
  data, image synthesis returns the empty locator and image editing returns its input.
\<close>

theorem no_inline_payload:
  assumes "first_parts r = Inr ps" and "\<forall>p \<in> set ps. inlineData p = None"
  shows "(generateContent (ImageRequest mealName) = Inr r \<longrightarrow>
            generateMealImage generateContent mealName = Inr []) \<and>
         (generateContent (EditRequest base64Image prompt) = Inr r \<longrightarrow>
            editMealImage generateContent base64Image prompt = Inr base64Image)"
  using assms by (simp add: generateMealImage_def editMealImage_def inline_locator_None)

text \<open>
  C9. The claim: a response without an inline payload makes \<^verbatim>\<open>generateMealImage\<close> return
  the empty locator without raising, and \<^verbatim>\<open>editMealImage\<close> return the original locator.
  A response without candidates, and one whose only candidate has no content, have no
  inline payload, and on them both functions throw a \<^verbatim>\<open>TypeError\<close>, for every meal
  name, image and instruction.
\<close>

theorem image_without_parts_raises:
  "generateMealImage (constant_backend no_candidates) mealName = Inl TypeError \<and>
   editMealImage (constant_backend no_candidates) base64Image prompt = Inl TypeError \<and>
   generateMealImage (constant_backend blocked_response) mealName = Inl TypeError \<and>
   editMealImage (constant_backend blocked_response) base64Image prompt = Inl TypeError"
  by (simp add: generateMealImage_def editMealImage_def constant_backend_def no_candidates_def
      blocked_response_def first_parts_def)

subsection \<open>Venue recommendations\<close>

lemma missing_both_filtered: "missing_both chunk \<Longrightarrow> \<not> has_uri chunk"
  by (simp add: missing_both_def has_uri_def js_or_def truthy_def)

lemma property_attach_links:
  "property (attach links gym) ''groundingLinks'' = Some (JArr (take 3 links))"
  by (simp add: property_def attach_def update_conv)

lemma property_attach_other:
  "k \<noteq> ''groundingLinks'' \<Longrightarrow> property (attach links gym) k = property gym k"
  by (simp add: property_def attach_def update_conv)

lemma getGymRecommendations_cases:
  assumes "generateContent (DiscoveryRequest location goal (getLanguageName lang) userCoords) = Inr r"
      and "generateContent (ExtractRequest (responseText r) (groundingChunksOf r)) = Inr r2"
  shows "getGymRecommendations generateContent location goal lang userCoords =
           Inr (case parse_json (or_else (responseText r2) ''[]'') of
                  Some (JArr parsedGyms) \<Rightarrow> map (attach (groundingLinks (groundingChunksOf r))) parsedGyms
                | _ \<Rightarrow> [])"
  using assms
  by (simp add: getGymRecommendations_def JSON_parse_def split: option.splits jsval.splits)

lemma example_groundingLinks:
  "take 3 (groundingLinks example_chunks) = example_links"
  by (simp add: groundingLinks_def example_chunks_def example_links_def has_uri_def groundingLink_def
      maps_uri_def web_uri_def maps_title_def web_title_def js_or_def truthy_def str_val_def)

lemma example_discovery_chunks: "groundingChunksOf discovery_response = example_chunks"
  by (simp add: groundingChunksOf_def discovery_response_def)

lemma example_discovery:
  "example_backend
     (DiscoveryRequest ''Austin'' ''Muscle Gain'' (getLanguageName En) None) =
   Inr discovery_response"
  by (simp add: example_backend_def two_stage_backend_def)

lemma example_extraction:
  "example_backend
     (ExtractRequest (responseText discovery_response) (groundingChunksOf discovery_response)
        :: (unit, unit) request) =
   Inr (text_response extraction_text)"
  by (simp add: example_backend_def two_stage_backend_def)

lemma example_extraction_parsed:
  "parse_json (or_else (responseText (text_response extraction_text)) ''[]'') = Some (JArr example_gyms)"
proof -
  have "extraction_text \<noteq> []" by (simp add: extraction_text_def)
  then show ?thesis
    by (simp add: text_response_def or_else_simps parse_extraction_text)
qed

lemma example_recommendations:
  "getGymRecommendations (example_backend)
     ''Austin'' ''Muscle Gain'' En None = Inr example_venues"
  by (simp add: getGymRecommendations_cases [OF example_discovery example_extraction]
      example_extraction_parsed example_discovery_chunks)
     (simp add: example_gyms_def example_venues_def attach_def example_groundingLinks)

text \<open>
  C8. A citation that misses both uris does not pass the filter, and every venue of the
  result carries, as its \<^verbatim>\<open>groundingLinks\<close>, the same list: the first three (at most) of
  the links built from the citations that passed.
\<close>

theorem citations_attached:
  assumes "generateContent (DiscoveryRequest location goal (getLanguageName lang) userCoords) = Inr r"
      and "getGymRecommendations generateContent location goal lang userCoords = Inr venues"
  shows "(\<forall>chunk \<in> set (groundingChunksOf r). missing_both chunk \<longrightarrow> \<not> has_uri chunk) \<and>
         (\<forall>venue \<in> set venues.
            property venue ''groundingLinks'' =
              Some (JArr (take 3 (map groundingLink (filter has_uri (groundingChunksOf r))))))"
proof -
  from assms obtain r2 where
    r2: "generateContent (ExtractRequest (responseText r) (groundingChunksOf r)) = Inr r2"
    by (auto simp: getGymRecommendations_def split: sum.splits)
  have "venues = (case parse_json (or_else (responseText r2) ''[]'') of
                  Some (JArr parsedGyms) \<Rightarrow> map (attach (groundingLinks (groundingChunksOf r))) parsedGyms
                | _ \<Rightarrow> [])"
    using getGymRecommendations_cases [OF assms(1) r2] assms(2) by simp
  then have "\<forall>venue \<in> set venues. property venue ''groundingLinks'' =
              Some (JArr (take 3 (groundingLinks (groundingChunksOf r))))"
    by (auto simp: property_attach_links split: option.splits jsval.splits)
  then show ?thesis
    by (simp add: missing_both_filtered groundingLinks_def)
qed

theorem citations_attached_witness:
  "getGymRecommendations (example_backend)
     ''Austin'' ''Muscle Gain'' En None = Inr example_venues \<and>
   missing_both (example_chunks ! 1) \<and> \<not> has_uri (example_chunks ! 1) \<and>
   property (example_venues ! 0) ''groundingLinks'' = Some (JArr example_links) \<and>
   property (example_venues ! 1) ''groundingLinks'' = Some (JArr example_links) \<and>
   length example_links = 3"
proof -
  have "example_chunks ! 1 \<in> set (groundingChunksOf discovery_response)"
    and mb: "missing_both (example_chunks ! 1)"
    by (simp_all add: example_discovery_chunks)
       (simp_all add: example_chunks_def missing_both_def maps_uri_def web_uri_def)
  moreover have "example_venues ! 0 \<in> set example_venues" "example_venues ! 1 \<in> set example_venues"
    by (simp_all add: example_venues_def)
  moreover have "length example_links = 3"
    by (simp add: example_links_def)
  moreover note citations_attached [OF example_discovery example_recommendations]
  ultimately show ?thesis
    using example_groundingLinks example_recommendations
    by (simp add: example_discovery_chunks groundingLinks_def)
qed

text \<open>
  C2, as the code has it. When the extraction text parses to an array, the result has
  one venue for every element, in order, and each venue has exactly the \<^verbatim>\<open>lat\<close> and
  \<^verbatim>\<open>lng\<close> the element had: nothing is dropped.
\<close>

theorem venues_retained:
  assumes "generateContent (DiscoveryRequest location goal (getLanguageName lang) userCoords) = Inr r"
      and "generateContent (ExtractRequest (responseText r) (groundingChunksOf r)) = Inr r2"
      and "parse_json (or_else (responseText r2) ''[]'') = Some (JArr parsedGyms)"
  shows "\<exists>venues. getGymRecommendations generateContent location goal lang userCoords = Inr venues \<and>
           length venues = length parsedGyms \<and>
           (\<forall>i < length parsedGyms.
              property (venues ! i) ''lat'' = property (parsedGyms ! i) ''lat'' \<and>
              property (venues ! i) ''lng'' = property (parsedGyms ! i) ''lng'')"
  using getGymRecommendations_cases [OF assms(1,2)] assms(3)
  by (simp add: property_attach_other)

theorem venues_retained_witness:
  "getGymRecommendations (example_backend)
     ''Austin'' ''Muscle Gain'' En None = Inr example_venues \<and>
   length example_venues = length example_gyms \<and>
   property (example_venues ! 0) ''lat'' = Some (JNum ''30.27'') \<and>
   property (example_venues ! 1) ''lat'' = Some JNull \<and>
   property (example_venues ! 1) ''lng'' = None"
proof -
  from venues_retained [OF example_discovery example_extraction example_extraction_parsed]
  have "length example_venues = length example_gyms \<and>
        (\<forall>i < length example_gyms.
           property (example_venues ! i) ''lat'' = property (example_gyms ! i) ''lat'' \<and>
           property (example_venues ! i) ''lng'' = property (example_gyms ! i) ''lng'')"
    by (simp add: example_recommendations)
  moreover have "length example_gyms = 2"
    and "property (example_gyms ! 0) ''lat'' = Some (JNum ''30.27'')"
    and "property (example_gyms ! 1) ''lat'' = Some JNull"
    and "property (example_gyms ! 1) ''lng'' = None"
    by (simp_all add: example_gyms_def property_def)
  ultimately show ?thesis
    using example_recommendations by simp
qed

text \<open>
  C2 as stated fails: a venue whose \<^verbatim>\<open>lat\<close> is \<^verbatim>\<open>null\<close> and whose \<^verbatim>\<open>lng\<close> is absent
  is in the result.
\<close>

theorem venue_without_coordinates_counterexample:
  "getGymRecommendations (example_backend)
     ''Austin'' ''Muscle Gain'' En None = Inr example_venues \<and>
   example_venues ! 1 \<in> set example_venues \<and>
   property (example_venues ! 1) ''lat'' = Some JNull \<and>
   property (example_venues ! 1) ''lng'' = None \<and>
   \<not> has_coordinates (example_venues ! 1)"
  by (simp add: example_recommendations)
     (simp add: example_venues_def has_coordinates_def property_def)

subsection \<open>Exercise videos\<close>

lemma poll_messages_0: "poll_messages c 0 = []"
  by (simp add: poll_messages_def)

lemma poll_messages_Suc: "poll_messages c (Suc k) = progress_at (Suc c) @ poll_messages (Suc c) k"
proof -
  have "[Suc c ..< Suc c + Suc k] = Suc c # [Suc (Suc c) ..< Suc (Suc c) + k]"
    by (simp add: upt_conv_Cons)
  then show ?thesis by (simp add: poll_messages_def)
qed

lemma poll_loop_done:
  "isDone operation \<Longrightarrow> poll_loop g c operation log = Some (log, Inr operation)"
  by (subst poll_loop.simps) simp

lemma poll_loop_pending:
  "\<not> isDone operation \<Longrightarrow> g (c + 1) = Inr operation' \<Longrightarrow>
   poll_loop g c operation log = poll_loop g (c + 1) operation' (log @ progress_at (c + 1))"
  by (subst poll_loop.simps) simp

lemma poll_loop_result:
  assumes "poll_loop g c operation log = Some y"
  shows "\<exists>k. fst y = log @ poll_messages c k \<and>
             (\<forall>final. snd y = Inr final \<longrightarrow> isDone final \<and> polled g c operation k final)"
proof (rule poll_loop.raw_induct
    [where P = "\<lambda>g c operation log y. \<exists>k. fst y = log @ poll_messages c k \<and>
             (\<forall>final. snd y = Inr final \<longrightarrow> isDone final \<and> polled g c operation k final)",
     OF _ assms])
  fix f g c operation log y
  assume IH: "\<And>g c operation log y. f g c operation log = Some y \<Longrightarrow>
           \<exists>k. fst y = log @ poll_messages c k \<and>
             (\<forall>final. snd y = Inr final \<longrightarrow> isDone final \<and> polled g c operation k final)"
    and body: "(if isDone operation then Some (log, Inr operation)
      else case g (c + 1) of
           Inl e \<Rightarrow> Some (log @ progress_at (c + 1), Inl e)
           | Inr operation' \<Rightarrow> f g (c + 1) operation' (log @ progress_at (c + 1))) = Some y"
  show "\<exists>k. fst y = log @ poll_messages c k \<and>
             (\<forall>final. snd y = Inr final \<longrightarrow> isDone final \<and> polled g c operation k final)"
  proof (cases "isDone operation")
    case True
    with body have "y = (log, Inr operation)" by simp
    with True show ?thesis by (intro exI[of _ 0]) (simp add: poll_messages_0 polled_def)
  next
    case False
    show ?thesis
    proof (cases "g (c + 1)")
      case (Inl e)
      with False body have "y = (log @ progress_at (c + 1), Inl e)" by simp
      then show ?thesis by (intro exI[of _ 1]) (simp add: poll_messages_Suc poll_messages_0)
    next
      case (Inr operation')
      with False body have "f g (c + 1) operation' (log @ progress_at (c + 1)) = Some y"
        by simp
      from IH[OF this] obtain k where
        k: "fst y = (log @ progress_at (c + 1)) @ poll_messages (c + 1) k"
           "\<forall>final. snd y = Inr final \<longrightarrow> isDone final \<and> polled g (c + 1) operation' k final"
        by blast
      show ?thesis using k Inr
        by (intro exI[of _ "Suc k"]) (auto simp: poll_messages_Suc polled_def split: if_splits)
    qed
  qed
qed

lemma poll_loop_completes:
  assumes "\<forall>i. c < i \<and> i < c + k \<longrightarrow> (\<exists>operation'. g i = Inr operation' \<and> \<not> isDone operation')"
      and "if k = 0 then final = operation else \<not> isDone operation \<and> g (c + k) = Inr final"
      and "isDone final"
  shows "poll_loop g c operation log = Some (log @ poll_messages c k, Inr final)"
  using assms
proof (induction k arbitrary: c operation log)
  case 0
  then show ?case by (simp add: poll_loop_done poll_messages_0)
next
  case (Suc k)
  from Suc.prems(2) have nd: "\<not> isDone operation" and fin: "g (c + Suc k) = Inr final" by simp_all
  show ?case
  proof (cases k)
    case 0
    with fin have g1: "g (c + 1) = Inr final" by simp
    have "poll_loop g c operation log = poll_loop g (c + 1) final (log @ progress_at (c + 1))"
      using nd g1 by (rule poll_loop_pending)
    also have "\<dots> = Some (log @ progress_at (c + 1), Inr final)"
      by (rule poll_loop_done [OF Suc.prems(3)])
    finally show ?thesis using 0 by (simp add: poll_messages_Suc poll_messages_0)
  next
    case (Suc j)
    have "c < c + 1 \<and> c + 1 < c + Suc k" using Suc by simp
    with Suc.prems(1) obtain operation' where
      o: "g (c + 1) = Inr operation'" "\<not> isDone operation'"
      by blast
    have "poll_loop g (c + 1) operation' (log @ progress_at (c + 1)) =
            Some ((log @ progress_at (c + 1)) @ poll_messages (c + 1) k, Inr final)"
    proof (rule Suc.IH)
      show "\<forall>i. c + 1 < i \<and> i < c + 1 + k \<longrightarrow> (\<exists>operation'. g i = Inr operation' \<and> \<not> isDone operation')"
        using Suc.prems(1) by simp
      show "if k = 0 then final = operation' else \<not> isDone operation' \<and> g (c + 1 + k) = Inr final"
        using Suc o fin by simp
      show "isDone final" by (rule Suc.prems(3))
    qed
    moreover have "poll_loop g c operation log =
            poll_loop g (c + 1) operation' (log @ progress_at (c + 1))"
      using nd o(1) by (rule poll_loop_pending)
    ultimately show ?thesis
      by (simp add: poll_messages_Suc)
  qed
qed

lemma due_step:
  "map snd (filter (\<lambda>(p, m). p \<le> Suc k) [(2::nat, a), (4, b), (7, c), (10, d), (14, e)]) =
   map snd (filter (\<lambda>(p, m). p \<le> k) [(2, a), (4, b), (7, c), (10, d), (14, e)]) @
     (if Suc k = 2 then [a] else []) @ (if Suc k = 4 then [b] else []) @
     (if Suc k = 7 then [c] else []) @ (if Suc k = 10 then [d] else []) @
     (if Suc k = 14 then [e] else [])"
  by (simp add: le_Suc_eq)

lemma poll_messages_schedule:
  "poll_messages 0 k = map snd (filter (\<lambda>(p, m). p \<le> k) schedule)"
proof (induction k)
  case 0
  show ?case unfolding schedule_def by (simp add: poll_messages_0)
next
  case (Suc k)
  have "poll_messages 0 (Suc k) = poll_messages 0 k @ progress_at (Suc k)"
    by (simp add: poll_messages_def)
  also have "\<dots> = map snd (filter (\<lambda>(p, m). p \<le> k) schedule) @ progress_at (Suc k)"
    by (simp only: Suc.IH)
  also have "\<dots> = map snd (filter (\<lambda>(p, m). p \<le> Suc k) schedule)"
    unfolding schedule_def progress_at_def by (rule due_step [symmetric])
  finally show ?case .
qed

lemma milestone_index_schedule:
  "map milestone_index (map snd schedule) = [2, 3, 4, 5, 6]"
  by (simp add: schedule_def milestone_index_def milestones_def)

lemma sorted_wrt_map_filter:
  "sorted_wrt (<) (map f xs) \<Longrightarrow> sorted_wrt (<) (map f (filter P xs))"
  by (induction xs) auto

lemma poll_messages_sorted:
  "sorted_wrt (<) (map milestone_index (poll_messages 0 k))"
proof -
  have "sorted_wrt (<) (map (milestone_index \<circ> snd) schedule)"
    using milestone_index_schedule by simp
  then have "sorted_wrt (<) (map (milestone_index \<circ> snd) (filter (\<lambda>(p, m). p \<le> k) schedule))"
    by (rule sorted_wrt_map_filter)
  then show ?thesis by (simp add: poll_messages_schedule)
qed

lemma poll_messages_range:
  "m \<in> set (poll_messages 0 k) \<Longrightarrow> milestone_index m \<in> {2, 3, 4, 5, 6} \<and> m \<in> set milestones"
proof -
  assume "m \<in> set (poll_messages 0 k)"
  then have "m \<in> set (map snd schedule)"
    by (auto simp: poll_messages_schedule)
  then show ?thesis
    by (auto simp: schedule_def milestone_index_def milestones_def)
qed

lemma getExerciseVideo_log:
  assumes "getExerciseVideo key generateVideos getVideosOperation exerciseName = Some (log, Inr url)"
  shows "\<exists>k final. log = [''Initializing Bio-Visual Simulation...'', ''Accessing Neural Compute Pipeline...''] @ poll_messages 0 k @ [''Simulation Complete. Finalizing Stream.''] \<and>
           isDone final \<and> status_at generateVideos getVideosOperation exerciseName k = Inr final \<and>
           url = interpolate (downloadLink final) @ ''&key='' @ interpolate key"
proof -
  from assms obtain operation where gv: "generateVideos exerciseName = Inr operation"
    by (auto simp: getExerciseVideo_def split: sum.splits)
  with assms obtain log' final where
    pl: "poll_loop getVideosOperation 0 operation [''Initializing Bio-Visual Simulation...'', ''Accessing Neural Compute Pipeline...''] = Some (log', Inr final)"
    and log: "log = log' @ [''Simulation Complete. Finalizing Stream.'']"
    and url: "url = interpolate (downloadLink final) @ ''&key='' @ interpolate key"
    by (auto simp: getExerciseVideo_def milestones_def split: option.splits sum.splits)
  from poll_loop_result[OF pl] obtain k where
    "log' = [''Initializing Bio-Visual Simulation...'', ''Accessing Neural Compute Pipeline...''] @ poll_messages 0 k"
    "isDone final" "polled getVideosOperation 0 operation k final"
    by auto
  with gv log url show ?thesis
    by (intro exI[of _ k] exI[of _ final]) (auto simp: status_at_def polled_def split: if_splits)
qed

lemma poll_done_at_step:
  "\<not> isDone operation \<Longrightarrow>
   poll_loop (done_at n final) c operation log =
     poll_loop (done_at n final) (Suc c) (if n \<le> Suc c then final else pending_operation)
       (log @ progress_at (Suc c))"
  using poll_loop_pending [of operation "done_at n final" c
      "if n \<le> Suc c then final else pending_operation" log]
  by (simp add: done_at_def)

lemma example_poll:
  "isDone final \<Longrightarrow>
   poll_loop (done_at 3 final) 0 pending_operation log =
     Some (((log @ progress_at (Suc 0)) @ progress_at (Suc (Suc 0))) @
             progress_at (Suc (Suc (Suc 0))), Inr final)"
proof -
  assume d: "isDone final"
  have p: "\<not> isDone pending_operation" by (simp add: pending_operation_def)
  have "poll_loop (done_at 3 final) 0 pending_operation log =
          poll_loop (done_at 3 final) (Suc 0) pending_operation (log @ progress_at (Suc 0))"
    using poll_done_at_step [OF p, of 3 final 0 log] by simp
  also have "\<dots> = poll_loop (done_at 3 final) (Suc (Suc 0)) pending_operation
                     ((log @ progress_at (Suc 0)) @ progress_at (Suc (Suc 0)))"
    using poll_done_at_step [OF p, of 3 final "Suc 0" "log @ progress_at (Suc 0)"] by simp
  also have "\<dots> = poll_loop (done_at 3 final) (Suc (Suc (Suc 0))) final
                     (((log @ progress_at (Suc 0)) @ progress_at (Suc (Suc 0))) @
                        progress_at (Suc (Suc (Suc 0))))"
    using poll_done_at_step [OF p, of 3 final "Suc (Suc 0)"
        "(log @ progress_at (Suc 0)) @ progress_at (Suc (Suc 0))"]
    by (simp add: eval_nat_numeral)
  also have "\<dots> = Some (((log @ progress_at (Suc 0)) @ progress_at (Suc (Suc 0))) @
                           progress_at (Suc (Suc (Suc 0))), Inr final)"
    using d by (rule poll_loop_done)
  finally show ?thesis .
qed

lemma example_video:
  "getExerciseVideo (Some ''K'') submit_pending (done_at 3 (finished_operation link)) ''Squat'' =
     Some (example_log, Inr (interpolate link @ ''&key=K''))"
proof -
  have "isDone (finished_operation link)" by (simp add: finished_operation_def)
  then show ?thesis
    by (simp add: getExerciseVideo_def submit_pending_def example_poll progress_at_def
        example_log_def downloadLink_def finished_operation_def interpolate_def)
qed

text \<open>
  C7. In every run of \<^verbatim>\<open>getExerciseVideo\<close> that returns a locator, the messages passed
  to the progress callback are milestones with strictly increasing indices, so none is
  repeated, and the last of them is the completion message.
\<close>

theorem progress_monotone:
  assumes "getExerciseVideo key generateVideos getVideosOperation exerciseName = Some (log, Inr url)"
  shows "sorted_wrt (<) (map milestone_index log) \<and> distinct log \<and>
         set log \<subseteq> set milestones \<and>
         log \<noteq> [] \<and> last log = ''Simulation Complete. Finalizing Stream.''"
proof -
  from getExerciseVideo_log[OF assms] obtain k where
    log: "log = [''Initializing Bio-Visual Simulation...'', ''Accessing Neural Compute Pipeline...''] @ poll_messages 0 k @ [''Simulation Complete. Finalizing Stream.'']"
    by blast
  have i0: "milestone_index (''Initializing Bio-Visual Simulation...'') = 0" and i1: "milestone_index (''Accessing Neural Compute Pipeline...'') = 1"
    and i7: "milestone_index (''Simulation Complete. Finalizing Stream.'') = 7"
    by (simp_all add: milestone_index_def milestones_def)
  have mem: "''Initializing Bio-Visual Simulation...'' \<in> set milestones" "''Accessing Neural Compute Pipeline...'' \<in> set milestones"
    "''Simulation Complete. Finalizing Stream.'' \<in> set milestones"
    by (simp_all add: milestones_def)
  have rng: "\<forall>m \<in> set (poll_messages 0 k). milestone_index m \<in> {2, 3, 4, 5, 6} \<and> m \<in> set milestones"
    using poll_messages_range by blast
  have s: "sorted_wrt (<) (map milestone_index log)"
    unfolding log using poll_messages_sorted[of k] rng
    by (auto simp: sorted_wrt_append i0 i1 i7)
  then have "distinct (map milestone_index log)"
    by (simp add: strict_sorted_iff)
  then have "distinct log"
    by (simp add: distinct_map)
  moreover note s
  moreover have "set log \<subseteq> set milestones"
    unfolding log using rng mem by auto
  moreover have "last log = ''Simulation Complete. Finalizing Stream.''"
    unfolding log by (simp add: milestones_def)
  ultimately show ?thesis unfolding log by simp
qed

theorem progress_monotone_witness:
  "getExerciseVideo (Some ''K'') submit_pending (done_at 3 (finished_operation (Some ''https://v/1'')))
     ''Squat'' = Some (example_log, Inr ''https://v/1&key=K'') \<and>
   map milestone_index example_log = [0, 1, 2, 7] \<and>
   sorted_wrt (<) (map milestone_index example_log) \<and>
   last example_log = ''Simulation Complete. Finalizing Stream.''"
proof -
  have run: "getExerciseVideo (Some ''K'') submit_pending
      (done_at 3 (finished_operation (Some ''https://v/1''))) ''Squat'' =
      Some (example_log, Inr ''https://v/1&key=K'')"
    by (simp add: example_video interpolate_def)
  have "map milestone_index example_log = [0, 1, 2, 7]"
    by (simp add: example_log_def milestone_index_def milestones_def)
  with progress_monotone [OF run] run show ?thesis by simp
qed

text \<open>
  C10. When the backend reports the operation done (at submission or at some status
  call, after reporting it pending until then), \<^verbatim>\<open>getExerciseVideo\<close> returns, and the
  locator is the uri of the video of the operation's first generated video, followed by
  \<^verbatim>\<open>&key=\<close> and the API key; it is never empty, and when the operation carries no such
  uri it is the text \<^verbatim>\<open>undefined\<close> followed by that suffix.
\<close>

theorem done_operation_locator:
  assumes "\<forall>i < k. \<exists>operation. status_at generateVideos getVideosOperation exerciseName i = Inr operation \<and> \<not> isDone operation"
      and "status_at generateVideos getVideosOperation exerciseName k = Inr final"
      and "isDone final"
  shows "\<exists>log url. getExerciseVideo key generateVideos getVideosOperation exerciseName = Some (log, Inr url) \<and>
           url \<noteq> [] \<and>
           (\<forall>r g gs v u. response final = Some r \<and> generatedVideos r = Some (g # gs) \<and>
                video g = Some v \<and> videoUri v = Some u \<longrightarrow>
                  url = u @ ''&key='' @ (case key of Some apiKey \<Rightarrow> apiKey | None \<Rightarrow> ''undefined'')) \<and>
           (response final = None \<or>
            (\<exists>r. response final = Some r \<and>
                 (generatedVideos r = None \<or> generatedVideos r = Some [] \<or>
                  (\<exists>g gs. generatedVideos r = Some (g # gs) \<and>
                          (video g = None \<or> (\<exists>v. video g = Some v \<and> videoUri v = None))))) \<longrightarrow>
              url = ''undefined&key='' @ (case key of Some apiKey \<Rightarrow> apiKey | None \<Rightarrow> ''undefined''))"
proof -
  obtain operation where gv: "generateVideos exerciseName = Inr operation"
    and first: "if k = 0 then final = operation else \<not> isDone operation \<and> getVideosOperation (0 + k) = Inr final"
    using assms(1,2) by (cases k) (auto simp: status_at_def)
  have "\<forall>i. 0 < i \<and> i < 0 + k \<longrightarrow> (\<exists>operation'. getVideosOperation i = Inr operation' \<and> \<not> isDone operation')"
    using assms(1) by (auto simp: status_at_def)
  from poll_loop_completes[OF this first assms(3)]
  have "poll_loop getVideosOperation 0 operation [''Initializing Bio-Visual Simulation...'', ''Accessing Neural Compute Pipeline...''] =
          Some ([''Initializing Bio-Visual Simulation...'', ''Accessing Neural Compute Pipeline...''] @ poll_messages 0 k, Inr final)" .
  with gv have run: "getExerciseVideo key generateVideos getVideosOperation exerciseName =
      Some ([''Initializing Bio-Visual Simulation...'', ''Accessing Neural Compute Pipeline...''] @
              poll_messages 0 k @ [''Simulation Complete. Finalizing Stream.''],
            Inr (interpolate (downloadLink final) @ ''&key='' @ interpolate key))"
    by (simp add: getExerciseVideo_def)
  have k: "interpolate key = (case key of Some apiKey \<Rightarrow> apiKey | None \<Rightarrow> ''undefined'')"
    by (simp add: interpolate_def split: option.split)
  have present: "\<forall>r g gs v u. response final = Some r \<and> generatedVideos r = Some (g # gs) \<and>
      video g = Some v \<and> videoUri v = Some u \<longrightarrow> interpolate (downloadLink final) = u"
    by (auto simp: downloadLink_def interpolate_def)
  have absent: "response final = None \<or>
      (\<exists>r. response final = Some r \<and>
           (generatedVideos r = None \<or> generatedVideos r = Some [] \<or>
            (\<exists>g gs. generatedVideos r = Some (g # gs) \<and>
                    (video g = None \<or> (\<exists>v. video g = Some v \<and> videoUri v = None))))) \<longrightarrow>
      interpolate (downloadLink final) = ''undefined''"
    by (auto simp: downloadLink_def interpolate_def)
  show ?thesis
    unfolding run k using present absent by auto
qed

theorem done_operation_locator_witness:
  "status_at submit_pending (done_at 3 (finished_operation (Some ''https://v/1''))) ''Squat'' 0 =
     Inr pending_operation \<and>
   status_at submit_pending (done_at 3 (finished_operation (Some ''https://v/1''))) ''Squat'' 1 =
     Inr pending_operation \<and>
   status_at submit_pending (done_at 3 (finished_operation (Some ''https://v/1''))) ''Squat'' 2 =
     Inr pending_operation \<and>
   \<not> isDone pending_operation \<and>
   status_at submit_pending (done_at 3 (finished_operation (Some ''https://v/1''))) ''Squat'' 3 =
     Inr (finished_operation (Some ''https://v/1'')) \<and>
   isDone (finished_operation (Some ''https://v/1'')) \<and>
   response (finished_operation (Some ''https://v/1'')) =
     Some \<lparr>generatedVideos = Some [\<lparr>video = Some \<lparr>videoUri = Some ''https://v/1''\<rparr>\<rparr>]\<rparr> \<and>
   getExerciseVideo (Some ''K'') submit_pending
       (done_at 3 (finished_operation (Some ''https://v/1''))) ''Squat'' =
     Some (example_log, Inr ''https://v/1&key=K'') \<and>
   status_at submit_pending (done_at 3 (finished_operation None)) ''Squat'' 3 =
     Inr (finished_operation None) \<and>
   isDone (finished_operation None) \<and>
   response (finished_operation None) =
     Some \<lparr>generatedVideos = Some [\<lparr>video = Some \<lparr>videoUri = None\<rparr>\<rparr>]\<rparr> \<and>
   getExerciseVideo (Some ''K'') submit_pending (done_at 3 (finished_operation None)) ''Squat'' =
     Some (example_log, Inr ''undefined&key=K'')"
proof -
  have s: "status_at submit_pending (done_at 3 (finished_operation link)) ''Squat'' 0 = Inr pending_operation"
    "status_at submit_pending (done_at 3 (finished_operation link)) ''Squat'' 1 = Inr pending_operation"
    "status_at submit_pending (done_at 3 (finished_operation link)) ''Squat'' 2 = Inr pending_operation"
    "status_at submit_pending (done_at 3 (finished_operation link)) ''Squat'' 3 = Inr (finished_operation link)"
    for link
    by (simp_all add: status_at_def submit_pending_def done_at_def)
  have p: "\<not> isDone pending_operation" by (simp add: pending_operation_def)
  have d: "isDone (finished_operation link)"
    "response (finished_operation link) =
       Some \<lparr>generatedVideos = Some [\<lparr>video = Some \<lparr>videoUri = link\<rparr>\<rparr>]\<rparr>" for link
    by (simp_all add: finished_operation_def)
  have pend: "\<forall>i < 3. \<exists>operation.
          status_at submit_pending (done_at 3 (finished_operation link)) ''Squat'' i = Inr operation \<and>
          \<not> isDone operation" for link
    using p by (simp add: status_at_def submit_pending_def done_at_def)
  from done_operation_locator
    [OF pend [of "Some ''https://v/1''"] s(4) [of "Some ''https://v/1''"]
      d(1) [of "Some ''https://v/1''"], of "Some ''K''"]
  obtain log1 url1 where
    r1: "getExerciseVideo (Some ''K'') submit_pending
           (done_at 3 (finished_operation (Some ''https://v/1''))) ''Squat'' = Some (log1, Inr url1)"
    and u1: "\<forall>r g gs v u. response (finished_operation (Some ''https://v/1'')) = Some r \<and>
           generatedVideos r = Some (g # gs) \<and> video g = Some v \<and> videoUri v = Some u \<longrightarrow>
           url1 = u @ ''&key='' @ (case Some ''K'' of Some apiKey \<Rightarrow> apiKey | None \<Rightarrow> ''undefined'')"
    by blast
  from u1 have "url1 = ''https://v/1&key=K''"
    by (simp add: d)
  moreover from r1 have "log1 = example_log"
    by (simp add: example_video)
  ultimately have one: "getExerciseVideo (Some ''K'') submit_pending
       (done_at 3 (finished_operation (Some ''https://v/1''))) ''Squat'' =
     Some (example_log, Inr ''https://v/1&key=K'')"
    using r1 by simp
  from done_operation_locator [OF pend [of None] s(4) [of None] d(1) [of None], of "Some ''K''"]
  obtain log2 url2 where
    r2: "getExerciseVideo (Some ''K'') submit_pending
           (done_at 3 (finished_operation None)) ''Squat'' = Some (log2, Inr url2)"
    and u2: "response (finished_operation None) = None \<or>
            (\<exists>r. response (finished_operation None) = Some r \<and>
                 (generatedVideos r = None \<or> generatedVideos r = Some [] \<or>
                  (\<exists>g gs. generatedVideos r = Some (g # gs) \<and>
                          (video g = None \<or> (\<exists>v. video g = Some v \<and> videoUri v = None))))) \<longrightarrow>
              url2 = ''undefined&key='' @ (case Some ''K'' of Some apiKey \<Rightarrow> apiKey | None \<Rightarrow> ''undefined'')"
    by blast
  from u2 have "url2 = ''undefined&key=K''"
    by (simp add: d)
  moreover from r2 have "log2 = example_log"
    by (simp add: example_video)
  ultimately have two: "getExerciseVideo (Some ''K'') submit_pending
       (done_at 3 (finished_operation None)) ''Squat'' = Some (example_log, Inr ''undefined&key=K'')"
    using r2 by simp
  show ?thesis
    using s p d one two by simp
qed

section \<open>Properties of the session caches\<close>

lemma truthy_Some [simp]: "truthy (Some s) = (s \<noteq> [])"
  by (simp add: truthy_def)

lemma truthy_None [simp]: "\<not> truthy None"
  by (simp add: truthy_def)

lemma truthy_cached_simps [simp]:
  "\<not> truthy_cached None"
  "truthy_cached (Some (Locator s)) = (s \<noteq> [])"
  "truthy_cached (Some (Inherited k))"
  by (simp_all add: truthy_cached_def)

lemma truthy_cached_Locator [simp]: "truthy_cached (map_option Locator a) = truthy a"
  by (cases a) simp_all

lemma space_units_eval:
  "space_units =
     [[CHR 0x09], [CHR 0x0A], [CHR 0x0B], [CHR 0x0C], [CHR 0x0D], [CHR 0x20],
      [CHR 0xC2, CHR 0xA0], [CHR 0xE1, CHR 0x9A, CHR 0x80],
      [CHR 0xE2, CHR 0x80, CHR 0x80], [CHR 0xE2, CHR 0x80, CHR 0x81],
      [CHR 0xE2, CHR 0x80, CHR 0x82], [CHR 0xE2, CHR 0x80, CHR 0x83],
      [CHR 0xE2, CHR 0x80, CHR 0x84], [CHR 0xE2, CHR 0x80, CHR 0x85],
      [CHR 0xE2, CHR 0x80, CHR 0x86], [CHR 0xE2, CHR 0x80, CHR 0x87],
      [CHR 0xE2, CHR 0x80, CHR 0x88], [CHR 0xE2, CHR 0x80, CHR 0x89],
      [CHR 0xE2, CHR 0x80, CHR 0x8A], [CHR 0xE2, CHR 0x80, CHR 0xA8],
      [CHR 0xE2, CHR 0x80, CHR 0xA9], [CHR 0xE2, CHR 0x80, CHR 0xAF],
      [CHR 0xE2, CHR 0x81, CHR 0x9F], [CHR 0xE3, CHR 0x80, CHR 0x80],
      [CHR 0xEF, CHR 0xBB, CHR 0xBF]]"
  by (simp add: space_units_def unit_bytes_def byte_def)

lemma trim_example: "js_trim ''Add a lemon wedge'' = ''Add a lemon wedge''"
  by (simp add: js_trim_def space_units_eval)

subsection \<open>Reading and assigning a key\<close>

text \<open>
  A key for which the cache yields nothing truthy is an own property or no inherited
  one, so an assignment to it is stored; the only assignment that is not stored is the
  one to \<^verbatim>\<open>__proto__\<close> on a cache without that own property. Assigning never adds a
  second entry for a key.
\<close>

lemma proto_inherited: "''__proto__'' \<in> set inherited_keys"
  by (simp add: inherited_keys_def)

lemma cache_miss_own:
  "\<not> truthy_cached (cache_get c k) \<Longrightarrow> \<not> (k = ''__proto__'' \<and> map_of c k = None)"
  by (auto simp: cache_get_def proto_inherited split: option.splits)

lemma cache_get_set:
  "\<not> (k = ''__proto__'' \<and> map_of c k = None) \<Longrightarrow> cache_get (cache_set k v c) k = Some (Locator v)"
  by (auto simp: cache_get_def cache_set_def update_conv)

lemma cache_set_twice: "cache_set k v (cache_set k v c) = cache_set k v c"
proof (cases "k = ''__proto__'' \<and> map_of c k = None")
  case True
  then have "cache_set k v c = c"
    unfolding cache_set_def by (rule if_P)
  then show ?thesis by simp
next
  case False
  then have one: "cache_set k v c = AList.update k v c"
    unfolding cache_set_def by (rule if_not_P)
  have "map_of (AList.update k v c) k = Some v"
    by (simp add: update_conv)
  then have "\<not> (k = ''__proto__'' \<and> map_of (AList.update k v c) k = None)"
    by simp
  then have "cache_set k v (AList.update k v c) = AList.update k v (AList.update k v c)"
    unfolding cache_set_def by (rule if_not_P)
  with one show ?thesis by simp
qed

lemma cache_set_inherited_setter:
  "map_of c ''__proto__'' = None \<Longrightarrow> cache_set ''__proto__'' v c = c"
  by (simp add: cache_set_def)

lemma cache_get_inherited_setter:
  "map_of c ''__proto__'' = None \<Longrightarrow>
   cache_get (cache_set ''__proto__'' v c) ''__proto__'' = Some (Inherited ''__proto__'')"
  by (simp add: cache_set_def cache_get_def proto_inherited)

lemma keys_after_set:
  "map fst (cache_set k v c) =
     (if k \<in> set (map fst c) \<or> k = ''__proto__'' then map fst c else map fst c @ [k])"
  by (auto simp: cache_set_def update_keys map_of_eq_None_iff)

lemma keys_distinct_after_set:
  "distinct (map fst c) \<Longrightarrow> distinct (map fst (cache_set k v c))"
  by (simp add: keys_after_set)

subsection \<open>One component\<close>

lemma MealImage_begin_miss:
  assumes "\<not> truthy existingUrl" and "\<not> truthy_cached (cache_get (SESSION_IMAGE_CACHE s) mealName)"
  shows "MealImage_begin (s, n) mealName existingUrl =
           ((s, Suc n),
            Awaiting \<lparr>imageUrlState = None, loading = True, isVisible = True,
                      existingUrlProp = existingUrl, currentRun = Some n\<rparr>)"
  using assms
  by (simp add: MealImage_begin_def MealImage_initial_def sync_existingUrl_def intersecting_def
      fetch_due_def fetch_effect_def cached_or_def truthy_def split: option.splits)

lemma MealImage_begin_hit:
  assumes "existingUrl = Some url \<or> \<not> truthy existingUrl"
      and "cache_get (SESSION_IMAGE_CACHE s) mealName = Some (Locator url)" and "url \<noteq> []"
  shows "MealImage_begin (s, n) mealName existingUrl =
           ((s, n),
            Returned \<lparr>imageUrlState = Some (Locator url), loading = False, isVisible = False,
                      existingUrlProp = existingUrl, currentRun = None\<rparr>)"
  using assms
  by (auto simp: MealImage_begin_def MealImage_initial_def sync_existingUrl_def intersecting_def
      fetch_due_def cached_or_def)

lemma MealImage_begin_inherited:
  assumes "\<not> truthy existingUrl" and "map_of (SESSION_IMAGE_CACHE s) mealName = None"
      and "mealName \<in> set inherited_keys"
  shows "MealImage_begin (s, n) mealName existingUrl =
           ((s, n),
            Returned \<lparr>imageUrlState = Some (Inherited mealName), loading = False, isVisible = False,
                      existingUrlProp = existingUrl, currentRun = None\<rparr>)"
  using assms
  by (auto simp: MealImage_begin_def MealImage_initial_def sync_existingUrl_def intersecting_def
      fetch_due_def cached_or_def cache_get_def)

lemma fetchImage_settled_current:
  assumes "currentRun st = Some call"
  shows "fetchImage_settled s mealName st call (Inr url) =
           (updateMealImageInState s mealName url,
            st\<lparr>imageUrlState := Some (Locator url), loading := False\<rparr>)"
  using assms by (simp add: fetchImage_settled_def updateMealImageInState_def cache_set_twice)


text \<open>
  A render of the planner that passes the \<^verbatim>\<open>existingUrl\<close> of the render before runs the
  fetch effect again, and nothing else. One that passes a locator that is not empty to
  a component that had none leaves the component showing that locator with no current
  run, after one more call if the component was visible without an image.
\<close>

lemma rerender_same_prop:
  assumes "existingUrlProp st = existingUrl"
  shows "MealImage_rerender existingUrl (st, n) = fetch_effect (cleanup st) n"
  using assms by (simp add: MealImage_rerender_def fetch_effect_def cleanup_def fetch_due_def)

lemma rerender_with_locator:
  assumes "url \<noteq> []" and "\<not> truthy (existingUrlProp st)"
  shows "MealImage_rerender (Some url) (st, n) =
           (st\<lparr>imageUrlState := Some (Locator url), loading := False,
               existingUrlProp := Some url, currentRun := None\<rparr>,
            if fetch_due st then Suc n else n)"
proof -
  from assms have changed: "Some url \<noteq> existingUrlProp st"
    by (cases "existingUrlProp st") auto
  show ?thesis
  proof (cases "imageUrlState st = Some (Locator url)")
    case True
    with assms(1) have "\<not> fetch_due st"
      by (simp add: fetch_due_def)
    with True assms(1) changed show ?thesis
      by (simp add: MealImage_rerender_def Let_def sync_existingUrl_def fetch_effect_def
          cleanup_def fetch_due_def)
  next
    case False
    then have "Some (Locator url) \<noteq> imageUrlState st"
      by auto
    with assms(1) changed show ?thesis
      by (simp add: MealImage_rerender_def Let_def sync_existingUrl_def fetch_effect_def
          cleanup_def fetch_due_def)
  qed
qed

lemma rerender_shown:
  assumes "url \<noteq> []"
  shows "MealImage_rerender (Some url) (shown_image url, n) = (shown_image url, n)"
  using assms
  by (simp add: rerender_same_prop shown_image_def fetch_effect_def cleanup_def fetch_due_def)

text \<open>
  Whatever the locator, \<^verbatim>\<open>updateMealImageInState\<close> leaves the plans with that locator in
  every meal of the name.
\<close>

lemma update_meal_named:
  "update_meal mealName url m = Some meal \<Longrightarrow> name meal = mealName \<Longrightarrow> imageUrl meal = Some url"
  by (auto simp: update_meal_def split: option.splits if_splits)

lemma slots_of_updated_day:
  assumes "Some meal \<in> set (day_slots (update_day mealName url d))" and "name meal = mealName"
  shows "imageUrl meal = Some url"
proof -
  from assms(1) obtain m where "update_meal mealName url m = Some meal"
    by (auto simp: update_day_def day_slots_def split: option.splits)
  with assms(2) show ?thesis by (auto dest: update_meal_named)
qed


lemma cache_after_update:
  assumes "\<not> truthy_cached (cache_get (SESSION_IMAGE_CACHE s) mealName)"
  shows "cache_get (SESSION_IMAGE_CACHE (updateMealImageInState s mealName url)) mealName =
           Some (Locator url)"
  using cache_miss_own [OF assms] by (simp add: updateMealImageInState_def cache_get_set)

subsection \<open>The examples\<close>

lemma generate_no_image: "generateMealImage no_image_backend mealName = Inr []"
  by (simp add: no_image_backend_def generateMealImage_def constant_backend_def
      parts_response_def first_parts_def inline_locator_def text_part_def)

lemma generate_image: "generateMealImage image_backend mealName = Inr ''data:image/png;base64,AAAA''"
  by (simp add: image_backend_def generateMealImage_def constant_backend_def
      parts_response_def first_parts_def inline_locator_def text_part_def png_part_def
      interpolate_def)

lemma salmon_not_cached:
  "\<not> truthy_cached (cache_get (SESSION_IMAGE_CACHE fresh_planner) ''Grilled Salmon'')"
  by (simp add: fresh_planner_def cache_get_def inherited_keys_def)

lemma salmon_stored_eval:
  "updateMealImageInState fresh_planner ''Grilled Salmon'' ''data:image/png;base64,AAAA'' =
     salmon_stored"
  by (simp add: updateMealImageInState_def fresh_planner_def salmon_stored_def cache_set_def
      example_day_def salmon_def update_day_def update_meal_def)

lemma empty_stored_eval:
  "updateMealImageInState fresh_planner ''Grilled Salmon'' [] = empty_stored"
  by (simp add: updateMealImageInState_def fresh_planner_def empty_stored_def cache_set_def
      example_day_def salmon_def update_day_def update_meal_def)

lemma squat_not_cached:
  "\<not> truthy_cached (cache_get (VIDEO_CACHE fresh_workout) ''Squat'')"
  by (simp add: fresh_workout_def cache_get_def inherited_keys_def)

subsection \<open>Opening a demonstration\<close>

lemma handleOpenDemo_miss:
  assumes "\<not> truthy_cached (cache_get (VIDEO_CACHE w) exerciseName)"
      and "snd (getVideo n exerciseName) = Inr url"
  shows "\<exists>w'. handleOpenDemo getVideo (w, n) exerciseName = (w', Suc n) \<and>
              currentVideoUrl w' = Some (Locator url) \<and>
              cache_get (VIDEO_CACHE w') exerciseName = Some (Locator url)"
  using assms cache_miss_own [OF assms(1)]
  by (simp add: handleOpenDemo_def handleOpenDemo_begin_def handleOpenDemo_settled_def Let_def
      cache_get_set)

lemma handleOpenDemo_hit:
  assumes "cache_get (VIDEO_CACHE w) exerciseName = Some (Locator url)" and "url \<noteq> []"
  shows "\<exists>w'. handleOpenDemo getVideo (w, n) exerciseName = (w', n) \<and>
              currentVideoUrl w' = Some (Locator url) \<and> VIDEO_CACHE w' = VIDEO_CACHE w"
  using assms
  by (simp add: handleOpenDemo_def handleOpenDemo_begin_def Let_def)

lemma getExerciseVideo_nonempty:
  assumes "getExerciseVideo key generateVideos getVideosOperation exerciseName = Some (log, Inr url)"
  shows "url \<noteq> []"
  using assms
  by (auto simp: getExerciseVideo_def split: sum.splits option.splits prod.splits)

subsection \<open>Two requests for one key\<close>




subsection \<open>Two lookups in sequence\<close>

text \<open>
  C5, as the code has it. Take a key for which the cache yields nothing truthy. If the
  generation made by the first lookup resolves with a locator that is not empty (and,
  for a meal image, no render of the planner has cleaned up the run that made the call),
  the locator is stored and later lookups of the key make no generation call and yield
  that same locator: the render of the planner that follows, every later render, a
  \<^verbatim>\<open>MealImage\<close> mounted afterwards for that name, and a second \<^verbatim>\<open>handleOpenDemo\<close>. A
  locator returned by \<^verbatim>\<open>getExerciseVideo\<close> is never empty.
\<close>

theorem second_lookup_served_from_cache:
  "(\<not> truthy existingUrl \<and> \<not> truthy_cached (cache_get (SESSION_IMAGE_CACHE s) mealName) \<and>
    url \<noteq> [] \<and> (existingUrl' = Some url \<or> \<not> truthy existingUrl') \<longrightarrow>
      (\<exists>st s1 st1 st3.
         MealImage_begin (s, n) mealName existingUrl = ((s, Suc n), Awaiting st) \<and>
         fetchImage_settled s mealName st n (Inr url) = (s1, st1) \<and>
         imageUrlState st1 = Some (Locator url) \<and>
         MealImage_rerender (Some url) (st1, Suc n) = (shown_image url, Suc n) \<and>
         MealImage_rerender (Some url) (shown_image url, Suc n) = (shown_image url, Suc n) \<and>
         MealImage_begin (s1, Suc n) mealName existingUrl' = ((s1, Suc n), Returned st3) \<and>
         imageUrlState st3 = Some (Locator url))) \<and>
   (\<not> truthy_cached (cache_get (VIDEO_CACHE w) exerciseName) \<and>
    getExerciseVideo key generateVideos getVideosOperation exerciseName =
      Some (getVideo n exerciseName) \<and>
    snd (getVideo n exerciseName) = Inr url \<longrightarrow>
      (\<exists>w1 w2.
         handleOpenDemo getVideo (w, n) exerciseName = (w1, Suc n) \<and>
         currentVideoUrl w1 = Some (Locator url) \<and>
         handleOpenDemo getVideo (w1, Suc n) exerciseName = (w2, Suc n) \<and>
         currentVideoUrl w2 = Some (Locator url)))"
proof (intro conjI impI)
  assume a: "\<not> truthy existingUrl \<and> \<not> truthy_cached (cache_get (SESSION_IMAGE_CACHE s) mealName) \<and>
    url \<noteq> [] \<and> (existingUrl' = Some url \<or> \<not> truthy existingUrl')"
  let ?st = "\<lparr>imageUrlState = None, loading = True, isVisible = True,
              existingUrlProp = existingUrl, currentRun = Some n\<rparr>"
  let ?s1 = "updateMealImageInState s mealName url"
  let ?st1 = "?st\<lparr>imageUrlState := Some (Locator url), loading := False\<rparr>"
  from a have b: "MealImage_begin (s, n) mealName existingUrl = ((s, Suc n), Awaiting ?st)"
    by (simp add: MealImage_begin_miss)
  have c: "fetchImage_settled s mealName ?st n (Inr url) = (?s1, ?st1)"
    by (simp add: fetchImage_settled_current)
  from a have d: "MealImage_rerender (Some url) (?st1, Suc n) = (shown_image url, Suc n)"
    by (simp add: rerender_with_locator fetch_due_def shown_image_def)
  from a have e: "MealImage_rerender (Some url) (shown_image url, Suc n) = (shown_image url, Suc n)"
    by (simp add: rerender_shown)
  from a have "cache_get (SESSION_IMAGE_CACHE ?s1) mealName = Some (Locator url)"
    by (simp add: cache_after_update)
  with a have f: "MealImage_begin (?s1, Suc n) mealName existingUrl' =
      ((?s1, Suc n),
       Returned \<lparr>imageUrlState = Some (Locator url), loading = False, isVisible = False,
                 existingUrlProp = existingUrl', currentRun = None\<rparr>)"
    by (intro MealImage_begin_hit) simp_all
  from b c d e f show "\<exists>st s1 st1 st3.
         MealImage_begin (s, n) mealName existingUrl = ((s, Suc n), Awaiting st) \<and>
         fetchImage_settled s mealName st n (Inr url) = (s1, st1) \<and>
         imageUrlState st1 = Some (Locator url) \<and>
         MealImage_rerender (Some url) (st1, Suc n) = (shown_image url, Suc n) \<and>
         MealImage_rerender (Some url) (shown_image url, Suc n) = (shown_image url, Suc n) \<and>
         MealImage_begin (s1, Suc n) mealName existingUrl' = ((s1, Suc n), Returned st3) \<and>
         imageUrlState st3 = Some (Locator url)"
    by simp
next
  assume b: "\<not> truthy_cached (cache_get (VIDEO_CACHE w) exerciseName) \<and>
    getExerciseVideo key generateVideos getVideosOperation exerciseName =
      Some (getVideo n exerciseName) \<and>
    snd (getVideo n exerciseName) = Inr url"
  then have "getExerciseVideo key generateVideos getVideosOperation exerciseName =
      Some (fst (getVideo n exerciseName), Inr url)"
    by (metis prod.collapse)
  then have ne: "url \<noteq> []"
    by (rule getExerciseVideo_nonempty)
  from b obtain w1 where w1: "handleOpenDemo getVideo (w, n) exerciseName = (w1, Suc n)"
    "currentVideoUrl w1 = Some (Locator url)"
    "cache_get (VIDEO_CACHE w1) exerciseName = Some (Locator url)"
    using handleOpenDemo_miss [of w exerciseName getVideo n url] by blast
  from w1(3) ne obtain w2 where "handleOpenDemo getVideo (w1, Suc n) exerciseName = (w2, Suc n)"
    "currentVideoUrl w2 = Some (Locator url)"
    using handleOpenDemo_hit [of w1 exerciseName url getVideo "Suc n"] by blast
  with w1 show "\<exists>w1 w2.
         handleOpenDemo getVideo (w, n) exerciseName = (w1, Suc n) \<and>
         currentVideoUrl w1 = Some (Locator url) \<and>
         handleOpenDemo getVideo (w1, Suc n) exerciseName = (w2, Suc n) \<and>
         currentVideoUrl w2 = Some (Locator url)"
    by blast
qed

theorem second_lookup_served_from_cache_witness:
  "\<not> truthy_cached (cache_get (SESSION_IMAGE_CACHE fresh_planner) ''Grilled Salmon'') \<and>
   generateMealImage image_backend ''Grilled Salmon'' = Inr ''data:image/png;base64,AAAA'' \<and>
   MealImage_begin (fresh_planner, 0) ''Grilled Salmon'' None =
     ((fresh_planner, 1), Awaiting (waiting_image 0)) \<and>
   fst (fetchImage_settled fresh_planner ''Grilled Salmon'' (waiting_image 0) 0
          (generateMealImage image_backend ''Grilled Salmon'')) = salmon_stored \<and>
   MealImage_rerender (Some ''data:image/png;base64,AAAA'')
       (snd (fetchImage_settled fresh_planner ''Grilled Salmon'' (waiting_image 0) 0
               (generateMealImage image_backend ''Grilled Salmon'')), 1) =
     (shown_image ''data:image/png;base64,AAAA'', 1) \<and>
   MealImage_begin (salmon_stored, 1) ''Grilled Salmon'' (Some ''data:image/png;base64,AAAA'') =
     ((salmon_stored, 1),
      Returned \<lparr>imageUrlState = Some (Locator ''data:image/png;base64,AAAA''), loading = False,
                isVisible = False, existingUrlProp = Some ''data:image/png;base64,AAAA'',
                currentRun = None\<rparr>) \<and>
   \<not> truthy_cached (cache_get (VIDEO_CACHE fresh_workout) ''Squat'') \<and>
   getExerciseVideo (Some ''K'') submit_pending
       (done_at 3 (finished_operation (Some ''https://v/1''))) ''Squat'' =
     Some (video_ready 0 ''Squat'') \<and>
   snd demo_first = 1 \<and> currentVideoUrl (fst demo_first) = Some (Locator ''https://v/1&key=K'') \<and>
   snd demo_second = 1 \<and> currentVideoUrl (fst demo_second) = Some (Locator ''https://v/1&key=K'')"
proof -
  have img: "\<not> truthy None \<and>
      \<not> truthy_cached (cache_get (SESSION_IMAGE_CACHE fresh_planner) ''Grilled Salmon'') \<and>
      ''data:image/png;base64,AAAA'' \<noteq> [] \<and>
      (Some ''data:image/png;base64,AAAA'' = Some ''data:image/png;base64,AAAA'' \<or>
       \<not> truthy (Some ''data:image/png;base64,AAAA''))"
    by (simp add: salmon_not_cached)
  have run: "getExerciseVideo (Some ''K'') submit_pending
       (done_at 3 (finished_operation (Some ''https://v/1''))) ''Squat'' =
     Some (video_ready 0 ''Squat'')"
    by (simp add: example_video video_ready_def interpolate_def)
  have vid: "\<not> truthy_cached (cache_get (VIDEO_CACHE fresh_workout) ''Squat'') \<and>
      getExerciseVideo (Some ''K'') submit_pending
         (done_at 3 (finished_operation (Some ''https://v/1''))) ''Squat'' =
        Some (video_ready 0 ''Squat'') \<and>
      snd (video_ready 0 ''Squat'') = Inr ''https://v/1&key=K''"
    by (simp add: squat_not_cached run) (simp add: video_ready_def)
  from second_lookup_served_from_cache
    [where existingUrl = None and s = fresh_planner and mealName = "''Grilled Salmon''"
       and url = "''data:image/png;base64,AAAA''"
       and existingUrl' = "Some ''data:image/png;base64,AAAA''" and n = 0] img
  obtain st s1 st1 st3 where
    f1: "MealImage_begin (fresh_planner, 0) ''Grilled Salmon'' None =
           ((fresh_planner, Suc 0), Awaiting st)"
    and f2: "fetchImage_settled fresh_planner ''Grilled Salmon'' st 0
               (Inr ''data:image/png;base64,AAAA'') = (s1, st1)"
    and f3: "MealImage_rerender (Some ''data:image/png;base64,AAAA'') (st1, Suc 0) =
               (shown_image ''data:image/png;base64,AAAA'', Suc 0)"
    and f4: "MealImage_begin (s1, Suc 0) ''Grilled Salmon'' (Some ''data:image/png;base64,AAAA'') =
               ((s1, Suc 0), Returned st3)"
    and f5: "imageUrlState st3 = Some (Locator ''data:image/png;base64,AAAA'')"
    by blast
  have st: "st = waiting_image 0"
    using f1 by (simp add: MealImage_begin_miss salmon_not_cached waiting_image_def)
  have s1: "s1 = salmon_stored"
    using f2 by (simp add: st fetchImage_settled_current waiting_image_def salmon_stored_eval)
  have st3: "st3 = \<lparr>imageUrlState = Some (Locator ''data:image/png;base64,AAAA''), loading = False,
                isVisible = False, existingUrlProp = Some ''data:image/png;base64,AAAA'',
                currentRun = None\<rparr>"
    using f4 f5
    by (simp add: MealImage_begin_def MealImage_initial_def sync_existingUrl_def intersecting_def
        fetch_due_def cached_or_def split: if_splits)
  have i: "MealImage_begin (fresh_planner, 0) ''Grilled Salmon'' None =
     ((fresh_planner, 1), Awaiting (waiting_image 0)) \<and>
   fst (fetchImage_settled fresh_planner ''Grilled Salmon'' (waiting_image 0) 0
          (generateMealImage image_backend ''Grilled Salmon'')) = salmon_stored \<and>
   MealImage_rerender (Some ''data:image/png;base64,AAAA'')
       (snd (fetchImage_settled fresh_planner ''Grilled Salmon'' (waiting_image 0) 0
               (generateMealImage image_backend ''Grilled Salmon'')), 1) =
     (shown_image ''data:image/png;base64,AAAA'', 1) \<and>
   MealImage_begin (salmon_stored, 1) ''Grilled Salmon'' (Some ''data:image/png;base64,AAAA'') =
     ((salmon_stored, 1),
      Returned \<lparr>imageUrlState = Some (Locator ''data:image/png;base64,AAAA''), loading = False,
                isVisible = False, existingUrlProp = Some ''data:image/png;base64,AAAA'',
                currentRun = None\<rparr>)"
    using f1 f2 f3 f4 by (simp add: st s1 st3 generate_image)
  from second_lookup_served_from_cache
    [where w = fresh_workout and exerciseName = "''Squat''" and key = "Some ''K''"
       and generateVideos = submit_pending
       and getVideosOperation = "done_at 3 (finished_operation (Some ''https://v/1''))"
       and getVideo = video_ready and n = 0 and url = "''https://v/1&key=K''"] vid
  obtain w1 w2 where
    g1: "demo_first = (w1, Suc 0)"
    and g2: "currentVideoUrl w1 = Some (Locator ''https://v/1&key=K'')"
    and g3: "handleOpenDemo video_ready (w1, Suc 0) ''Squat'' = (w2, Suc 0)"
    and g4: "currentVideoUrl w2 = Some (Locator ''https://v/1&key=K'')"
    unfolding demo_first_def by blast
  have v: "snd demo_first = 1 \<and> currentVideoUrl (fst demo_first) = Some (Locator ''https://v/1&key=K'') \<and>
      snd demo_second = 1 \<and> currentVideoUrl (fst demo_second) = Some (Locator ''https://v/1&key=K'')"
    by (simp add: demo_second_def g1 g2 g3 g4)
  from i v run salmon_not_cached squat_not_cached generate_image show ?thesis
    by (intro conjI) simp_all
qed

text \<open>
  C5 as stated fails. When the first generation resolves with the empty locator, the
  render that follows makes the same component call the generation again, and a second
  lookup calls it a third time. A lookup of the inherited key \<^verbatim>\<open>constructor\<close> makes no
  call at all and yields no locator. A generation that fails is made again by the
  second lookup. A render of the planner while the call is in flight makes the
  component call again.
\<close>

theorem repeated_generation_counterexample:
  "generateMealImage no_image_backend ''Grilled Salmon'' = Inr [] \<and>
   MealImage_begin (fresh_planner, 0) ''Grilled Salmon'' None =
     ((fresh_planner, 1), Awaiting (waiting_image 0)) \<and>
   fetchImage_settled fresh_planner ''Grilled Salmon'' (waiting_image 0) 0
       (generateMealImage no_image_backend ''Grilled Salmon'') =
     (empty_stored, (waiting_image 0)\<lparr>imageUrlState := Some (Locator []), loading := False\<rparr>) \<and>
   MealImage_rerender (Some [])
       ((waiting_image 0)\<lparr>imageUrlState := Some (Locator []), loading := False\<rparr>, 1) =
     (\<lparr>imageUrlState = Some (Locator []), loading = False, isVisible = True,
       existingUrlProp = Some [], currentRun = Some 1\<rparr>, 2) \<and>
   MealImage_begin (empty_stored, 2) ''Grilled Salmon'' (Some []) =
     ((empty_stored, 3),
      Awaiting \<lparr>imageUrlState = None, loading = True, isVisible = True,
                existingUrlProp = Some [], currentRun = Some 2\<rparr>) \<and>
   MealImage_begin (fresh_planner, 0) ''constructor'' None =
     ((fresh_planner, 0),
      Returned \<lparr>imageUrlState = Some (Inherited ''constructor''), loading = False,
                isVisible = False, existingUrlProp = None, currentRun = None\<rparr>) \<and>
   snd (handleOpenDemo video_ready (fresh_workout, 0) ''constructor'') = 0 \<and>
   currentVideoUrl (fst (handleOpenDemo video_ready (fresh_workout, 0) ''constructor'')) =
     Some (Inherited ''constructor'') \<and>
   snd (handleOpenDemo video_fails (fresh_workout, 0) ''Squat'') = 1 \<and>
   snd (handleOpenDemo video_fails
          (handleOpenDemo video_fails (fresh_workout, 0) ''Squat'') ''Squat'') = 2 \<and>
   MealImage_rerender None (waiting_image 0, 1) = (waiting_image 1, 2)"
proof -
  have b: "MealImage_begin (fresh_planner, 0) ''Grilled Salmon'' None =
     ((fresh_planner, 1), Awaiting (waiting_image 0))"
    by (simp add: MealImage_begin_miss salmon_not_cached waiting_image_def)
  have c: "fetchImage_settled fresh_planner ''Grilled Salmon'' (waiting_image 0) 0
       (generateMealImage no_image_backend ''Grilled Salmon'') =
     (empty_stored, (waiting_image 0)\<lparr>imageUrlState := Some (Locator []), loading := False\<rparr>)"
    by (simp add: generate_no_image fetchImage_settled_current waiting_image_def empty_stored_eval)
  have d: "MealImage_rerender (Some [])
       ((waiting_image 0)\<lparr>imageUrlState := Some (Locator []), loading := False\<rparr>, 1) =
     (\<lparr>imageUrlState = Some (Locator []), loading = False, isVisible = True,
       existingUrlProp = Some [], currentRun = Some 1\<rparr>, 2)"
    by (simp add: MealImage_rerender_def Let_def sync_existingUrl_def fetch_effect_def cleanup_def
        fetch_due_def waiting_image_def)
  have e: "MealImage_begin (empty_stored, 2) ''Grilled Salmon'' (Some []) =
     ((empty_stored, 3),
      Awaiting \<lparr>imageUrlState = None, loading = True, isVisible = True,
                existingUrlProp = Some [], currentRun = Some 2\<rparr>)"
    by (simp add: MealImage_begin_def MealImage_initial_def sync_existingUrl_def intersecting_def
        fetch_due_def fetch_effect_def cached_or_def cache_get_def empty_stored_def)
  have f: "MealImage_begin (fresh_planner, 0) ''constructor'' None =
     ((fresh_planner, 0),
      Returned \<lparr>imageUrlState = Some (Inherited ''constructor''), loading = False,
                isVisible = False, existingUrlProp = None, currentRun = None\<rparr>)"
    by (simp add: MealImage_begin_inherited fresh_planner_def inherited_keys_def)
  have g: "handleOpenDemo video_ready (fresh_workout, 0) ''constructor'' =
      (fresh_workout\<lparr>activeExercise := Some ''constructor'', isDemoVisible := True,
                     currentVideoUrl := Some (Inherited ''constructor''), videoLoading := False\<rparr>, 0)"
    by (simp add: handleOpenDemo_def handleOpenDemo_begin_def Let_def fresh_workout_def
        cache_get_def inherited_keys_def)
  have h: "handleOpenDemo video_fails (fresh_workout, 0) ''Squat'' =
      (fresh_workout\<lparr>activeExercise := Some ''Squat'', isDemoVisible := True,
                     videoLoading := False,
                     videoProgressMsg := ''Network Protocol Error. Please Retry.''\<rparr>, 1)"
    by (simp add: handleOpenDemo_def handleOpenDemo_begin_def handleOpenDemo_settled_def Let_def
        fresh_workout_def cache_get_def inherited_keys_def video_fails_def)
  have i: "snd (handleOpenDemo video_fails
          (handleOpenDemo video_fails (fresh_workout, 0) ''Squat'') ''Squat'') = 2"
    unfolding h
    by (simp add: handleOpenDemo_def handleOpenDemo_begin_def handleOpenDemo_settled_def Let_def
        fresh_workout_def cache_get_def inherited_keys_def video_fails_def)
  have j: "MealImage_rerender None (waiting_image 0, 1) = (waiting_image 1, 2)"
    by (simp add: rerender_same_prop waiting_image_def fetch_effect_def cleanup_def fetch_due_def)
  show ?thesis
    using b c d e f i j by (simp add: generate_no_image g h)
qed

subsection \<open>Replacing a locator\<close>

lemma editMealImage_nonempty:
  "editMealImage generateContent base64Image prompt = Inr newUrl \<Longrightarrow> base64Image \<noteq> [] \<Longrightarrow>
   newUrl \<noteq> []"
  by (auto simp: editMealImage_def split: sum.splits option.splits dest: inline_locator_nonempty)

lemma handleEditImage_replaces:
  assumes "selectedMeal s = Some meal" and "imageUrl meal = Some base64Image"
      and "base64Image \<noteq> []" and "js_trim (or_else promptOverride (editPrompt s)) \<noteq> []"
      and "editMealImage generateContent base64Image (or_else promptOverride (editPrompt s)) =
             Inr newUrl"
  shows "SESSION_IMAGE_CACHE (handleEditImage generateContent s promptOverride) =
           cache_set (name meal) newUrl (SESSION_IMAGE_CACHE s) \<and>
         plans (handleEditImage generateContent s promptOverride) =
           map (update_day (name meal) newUrl) (plans s) \<and>
         selectedMeal (handleEditImage generateContent s promptOverride) =
           Some (meal\<lparr>imageUrl := Some newUrl\<rparr>)"
  using assms
  by (simp add: handleEditImage_def Let_def updateMealImageInState_def)

lemma edit_example:
  "editMealImage edit_backend ''data:image/png;base64,AAAA'' ''Add a lemon wedge'' =
     Inr ''data:image/png;base64,BBBB''"
  by (simp add: editMealImage_def edit_backend_def constant_backend_def parts_response_def
      first_parts_def inline_locator_def png_part_def interpolate_def)

text \<open>
  For every meal name that is an own property of the cache or is not \<^verbatim>\<open>__proto__\<close>, an
  image edit leaves the cache yielding the new locator for the name, with no second
  entry for it, every meal of that name in the plans carrying the new locator, and a
  \<^verbatim>\<open>MealImage\<close> for that name, given the new locator or none, showing the new locator
  without a generation call.
\<close>

lemma edit_overwrites_own_entry:
  assumes "selectedMeal s = Some meal" and "imageUrl meal = Some base64Image"
      and "base64Image \<noteq> []" and "js_trim (or_else promptOverride (editPrompt s)) \<noteq> []"
      and "editMealImage generateContent base64Image (or_else promptOverride (editPrompt s)) =
             Inr newUrl"
      and "s' = handleEditImage generateContent s promptOverride"
      and "\<not> (name meal = ''__proto__'' \<and> map_of (SESSION_IMAGE_CACHE s) (name meal) = None)"
  shows "cache_get (SESSION_IMAGE_CACHE s') (name meal) = Some (Locator newUrl) \<and>
         map fst (SESSION_IMAGE_CACHE s') =
           (if name meal \<in> set (map fst (SESSION_IMAGE_CACHE s)) then map fst (SESSION_IMAGE_CACHE s)
            else map fst (SESSION_IMAGE_CACHE s) @ [name meal]) \<and>
         (\<forall>m. Some m \<in> set (plan_slots s') \<and> name m = name meal \<longrightarrow> imageUrl m = Some newUrl) \<and>
         (\<forall>existingUrl n. existingUrl = Some newUrl \<or> \<not> truthy existingUrl \<longrightarrow>
            (\<exists>st. MealImage_begin (s', n) (name meal) existingUrl = ((s', n), Returned st) \<and>
                  imageUrlState st = Some (Locator newUrl)))"
proof -
  have ne: "newUrl \<noteq> []"
    using assms(5,3) by (rule editMealImage_nonempty)
  from handleEditImage_replaces [OF assms(1-5)] assms(6)
  have c: "SESSION_IMAGE_CACHE s' = cache_set (name meal) newUrl (SESSION_IMAGE_CACHE s)"
    and p: "plans s' = map (update_day (name meal) newUrl) (plans s)"
    by simp_all
  have look: "cache_get (SESSION_IMAGE_CACHE s') (name meal) = Some (Locator newUrl)"
    using assms(7) by (simp add: c cache_get_set)
  have keys: "map fst (SESSION_IMAGE_CACHE s') =
           (if name meal \<in> set (map fst (SESSION_IMAGE_CACHE s)) then map fst (SESSION_IMAGE_CACHE s)
            else map fst (SESSION_IMAGE_CACHE s) @ [name meal])"
    using assms(7) by (auto simp: c keys_after_set map_of_eq_None_iff)
  have slots: "\<forall>m. Some m \<in> set (plan_slots s') \<and> name m = name meal \<longrightarrow> imageUrl m = Some newUrl"
  proof (intro allI impI)
    fix m assume m: "Some m \<in> set (plan_slots s') \<and> name m = name meal"
    then obtain d where "Some m \<in> set (day_slots (update_day (name meal) newUrl d))"
      by (auto simp: plan_slots_def p)
    with m show "imageUrl m = Some newUrl" by (auto dest: slots_of_updated_day)
  qed
  have served: "\<forall>existingUrl n. existingUrl = Some newUrl \<or> \<not> truthy existingUrl \<longrightarrow>
            (\<exists>st. MealImage_begin (s', n) (name meal) existingUrl = ((s', n), Returned st) \<and>
                  imageUrlState st = Some (Locator newUrl))"
    using MealImage_begin_hit [OF _ look ne] by fastforce
  from look keys slots served show ?thesis by (intro conjI)
qed

lemma edit_of_salmon:
  "cache_get (SESSION_IMAGE_CACHE edited_planner) ''Grilled Salmon'' =
     Some (Locator ''data:image/png;base64,BBBB'') \<and>
   map fst (SESSION_IMAGE_CACHE edited_planner) = [''Oatmeal'', ''Grilled Salmon''] \<and>
   MealImage_begin (edited_planner, 0) ''Grilled Salmon'' None =
     ((edited_planner, 0),
      Returned \<lparr>imageUrlState = Some (Locator ''data:image/png;base64,BBBB''), loading = False,
                isVisible = False, existingUrlProp = None, currentRun = None\<rparr>)"
proof -
  have sel: "selectedMeal editing_planner =
      Some (salmon\<lparr>imageUrl := Some ''data:image/png;base64,AAAA''\<rparr>)"
    by (simp add: editing_planner_def)
  have img: "imageUrl (salmon\<lparr>imageUrl := Some ''data:image/png;base64,AAAA''\<rparr>) =
      Some ''data:image/png;base64,AAAA''"
    by simp
  have ne: "''data:image/png;base64,AAAA'' \<noteq> []" by simp
  have pr: "or_else (Some ''Add a lemon wedge'') (editPrompt editing_planner) = ''Add a lemon wedge''"
    by (simp add: or_else_simps)
  have tr: "js_trim (or_else (Some ''Add a lemon wedge'') (editPrompt editing_planner)) \<noteq> []"
    by (simp add: pr trim_example)
  have ed: "editMealImage edit_backend ''data:image/png;base64,AAAA''
      (or_else (Some ''Add a lemon wedge'') (editPrompt editing_planner)) =
      Inr ''data:image/png;base64,BBBB''"
    by (simp add: pr edit_example)
  have nm: "name (salmon\<lparr>imageUrl := Some ''data:image/png;base64,AAAA''\<rparr>) = ''Grilled Salmon''"
    by (simp add: salmon_def)
  have own: "\<not> (name (salmon\<lparr>imageUrl := Some ''data:image/png;base64,AAAA''\<rparr>) = ''__proto__'' \<and>
      map_of (SESSION_IMAGE_CACHE editing_planner)
        (name (salmon\<lparr>imageUrl := Some ''data:image/png;base64,AAAA''\<rparr>)) = None)"
    by (simp add: nm)
  note t = edit_overwrites_own_entry [OF sel img ne tr ed edited_planner_def own, unfolded nm]
  have keys: "map fst (SESSION_IMAGE_CACHE editing_planner) = [''Oatmeal'', ''Grilled Salmon'']"
    by (simp add: editing_planner_def)
  have "MealImage_begin (edited_planner, 0) ''Grilled Salmon'' None =
     ((edited_planner, 0),
      Returned \<lparr>imageUrlState = Some (Locator ''data:image/png;base64,BBBB''), loading = False,
                isVisible = False, existingUrlProp = None, currentRun = None\<rparr>)"
    using t by (intro MealImage_begin_hit) simp_all
  then show ?thesis
    using t keys by simp
qed

text \<open>
  C6. The claim: for every key, after an image edit has replaced the locator of a meal,
  a lookup of the meal's name in the cache returns the new locator and the overwrite is
  unconditional. The code assigns to a property of a plain object: for the meal name
  \<^verbatim>\<open>__proto__\<close> the edit succeeds, the selected meal and the plans take the new locator,
  but the assignment stores nothing. The cache is as it was, it yields the inherited
  prototype for the name and not the new locator, and a \<^verbatim>\<open>MealImage\<close> mounted for that
  name without a locator of its own holds the inherited value.
\<close>

theorem edit_of_proto_not_stored:
  "editMealImage edit_backend ''data:image/png;base64,AAAA'' ''Add a lemon wedge'' =
     Inr ''data:image/png;base64,BBBB'' \<and>
   selectedMeal proto_edited =
     Some \<lparr>name = ''__proto__'', imageUrl = Some ''data:image/png;base64,BBBB''\<rparr> \<and>
   plan_slots proto_edited =
     [None, Some \<lparr>name = ''__proto__'', imageUrl = Some ''data:image/png;base64,BBBB''\<rparr>, None] \<and>
   SESSION_IMAGE_CACHE proto_edited = [] \<and>
   SESSION_IMAGE_CACHE (updateMealImageInState proto_planner ''__proto__''
                          ''data:image/png;base64,BBBB'') = [] \<and>
   cache_get (SESSION_IMAGE_CACHE proto_edited) ''__proto__'' = Some (Inherited ''__proto__'') \<and>
   cache_get (SESSION_IMAGE_CACHE proto_edited) ''__proto__'' \<noteq>
     Some (Locator ''data:image/png;base64,BBBB'') \<and>
   MealImage_begin (proto_edited, 0) ''__proto__'' None =
     ((proto_edited, 0),
      Returned \<lparr>imageUrlState = Some (Inherited ''__proto__''), loading = False,
                isVisible = False, existingUrlProp = None, currentRun = None\<rparr>)"
proof -
  have sel: "selectedMeal proto_planner = Some proto_meal"
    by (simp add: proto_planner_def)
  have img: "imageUrl proto_meal = Some ''data:image/png;base64,AAAA''"
    by (simp add: proto_meal_def)
  have ne: "''data:image/png;base64,AAAA'' \<noteq> []" by simp
  have pr: "or_else (Some ''Add a lemon wedge'') (editPrompt proto_planner) = ''Add a lemon wedge''"
    by (simp add: or_else_simps)
  have tr: "js_trim (or_else (Some ''Add a lemon wedge'') (editPrompt proto_planner)) \<noteq> []"
    by (simp add: pr trim_example)
  have ed: "editMealImage edit_backend ''data:image/png;base64,AAAA''
      (or_else (Some ''Add a lemon wedge'') (editPrompt proto_planner)) =
      Inr ''data:image/png;base64,BBBB''"
    by (simp add: pr edit_example)
  note r = handleEditImage_replaces [OF sel img ne tr ed, folded proto_edited_def]
  have cache: "SESSION_IMAGE_CACHE proto_edited = []"
    using r by (simp add: proto_meal_def proto_planner_def cache_set_def)
  have direct: "SESSION_IMAGE_CACHE (updateMealImageInState proto_planner ''__proto__''
                          ''data:image/png;base64,BBBB'') = []"
    by (simp add: updateMealImageInState_def proto_planner_def cache_set_def)
  have selected: "selectedMeal proto_edited =
     Some \<lparr>name = ''__proto__'', imageUrl = Some ''data:image/png;base64,BBBB''\<rparr>"
    using r by (simp add: proto_meal_def)
  have slots: "plan_slots proto_edited =
     [None, Some \<lparr>name = ''__proto__'', imageUrl = Some ''data:image/png;base64,BBBB''\<rparr>, None]"
    using r
    by (simp add: plan_slots_def proto_planner_def proto_meal_def day_slots_def update_day_def
        update_meal_def)
  have look: "cache_get (SESSION_IMAGE_CACHE proto_edited) ''__proto__'' =
      Some (Inherited ''__proto__'')"
    by (simp add: cache cache_get_def inherited_keys_def)
  have shown: "MealImage_begin (proto_edited, 0) ''__proto__'' None =
     ((proto_edited, 0),
      Returned \<lparr>imageUrlState = Some (Inherited ''__proto__''), loading = False,
                isVisible = False, existingUrlProp = None, currentRun = None\<rparr>)"
    by (simp add: MealImage_begin_inherited cache inherited_keys_def)
  show ?thesis
    using edit_example selected slots cache direct look shown by simp
qed

end
